theory Spec2Isabelle
  imports Main
begin

section \<open>The message model of ts/models/messages.ts\<close>

text \<open>
  A shallow embedding of the methods of \<open>MessageModel\<close> that the lifecycle rules are about:
  \<open>handleReaction\<close>, \<open>eraseContents\<close>, \<open>handleDeleteForEveryone\<close>, \<open>isEmpty\<close>,
  \<open>markFailed\<close>, \<open>retrySend\<close>, \<open>modifyTargetMessage\<close>, \<open>saveAndNotify\<close> and
  \<open>handleDataMessage\<close>.

  A Backbone model is a mutable bag of attributes; here a method takes the attributes
  (a record) and returns the new attributes. Calls to collaborators (the store, the
  notification service, the job queue, the conversation model) are recorded, in program
  order, in a list of effects. An attribute that may be \<open>undefined\<close> is an \<open>option\<close>;
  a boolean flag that the code only tests for truthiness is a \<open>bool\<close>, with
  \<open>False\<close> for \<open>undefined\<close>. Timestamps are integers (milliseconds).
\<close>

subsection \<open>Attributes\<close>

datatype messageType = Incoming | Outgoing | Story | OtherType string

datatype readStatus = Unread | Read | Viewed

datatype seenStatus = Unseen | Seen

datatype sendStatus =
  Status_Failed | Status_Pending | Status_Sent | Status_Delivered | Status_Read | Status_Viewed

datatype sendActionType =
  Action_Failed | ManuallyRetried | Action_Sent
  | GotDeliveryReceipt | GotReadReceipt | GotViewedReceipt

record sendState =
  status :: sendStatus
  updatedAt :: "int option"
  isAllowedToReplyToStory :: "bool option"

record sendAction =
  actionType :: sendActionType
  actionUpdatedAt :: int

datatype reactionSource = FromSomeoneElse | FromSync | FromThisDevice

text \<open>\<open>MessageReactionType\<close>: one entry of a message's \<open>reactions\<close> array.\<close>

record messageReaction =
  emoji :: "string option"
  fromId :: string
  targetAuthorUuid :: string
  targetTimestamp :: int
  timestamp :: int
  isSentByConversationId :: "(string \<times> bool) list option"

record attachment =
  contentType :: string

record linkPreview =
  url :: string
  title :: "string option"
  image :: "string option"

record quotedMessage =
  quoteId :: int
  quoteAuthorUuid :: "string option"
  referencedMessageNotFound :: bool

record customError =
  errorName :: string
  errorIdentifier :: "string option"

text \<open>A sticker, a payment and a gift badge are objects: truthy whenever they are defined.\<close>

record stickerData =
  packId :: string
  stickerId :: nat

record storyReactionData =
  sr_emoji :: "string option"
  sr_targetAuthorUuid :: string
  sr_targetTimestamp :: int

record expirationTimerUpdateData =
  etu_source :: "string option"
  etu_sourceUuid :: "string option"
  etu_expireTimer :: "nat option"

text \<open>
  \<open>MessageAttributesType\<close>, restricted to the attributes the modelled methods read or
  write. \<open>msg_id\<close>, \<open>msg_type\<close>, \<open>msg_source\<close> and \<open>msg_timestamp\<close> are the
  attributes \<open>id\<close>, \<open>type\<close>, \<open>source\<close> and \<open>timestamp\<close>.
\<close>

record message =
  msg_id :: "string option"
  msg_type :: messageType
  conversationId :: string
  msg_source :: "string option"
  sourceUuid :: "string option"
  sourceDevice :: "nat option"
  sent_at :: int
  received_at :: int
  msg_timestamp :: int
  body :: "string option"
  bodyRanges :: "string list option"
  attachments :: "attachment list option"
  contact :: "string list option"
  preview :: "linkPreview list option"
  quote :: "quotedMessage option"
  sticker :: "stickerData option"
  editHistory :: "string list option"
  payment :: "string option"
  giftBadge :: "nat option"
  flags :: "nat option"
  isViewOnce :: bool
  isTapToViewInvalid :: bool
  isErased :: bool
  deletedForEveryone :: bool
  reactions :: "messageReaction list option"
  errors :: "customError list option"
  sendStateByConversationId :: "(string \<rightharpoonup> sendState) option"
  unidentifiedDeliveries :: "string list option"
  unidentifiedDeliveryReceived :: bool
  readStatus :: "readStatus option"
  seenStatus :: "seenStatus option"
  expireTimer :: "nat option"
  expirationStartTimestamp :: "int option"
  expirationTimerUpdate :: "expirationTimerUpdateData option"
  storyId :: "string option"
  storyDistributionListId :: "string option"
  storyReaction :: "storyReactionData option"
  decrypted_at :: "int option"

text \<open>
  \<open>ReactionAttributesType\<close>, the attributes of a \<open>ReactionModel\<close>. It has every field
  of a \<open>MessageReactionType\<close> (the code passes \<open>reaction.attributes\<close> where a
  \<open>MessageReactionType\<close> is expected), so it is an extension of that record.
\<close>

record reactionAttributes = messageReaction +
  remove :: bool
  reactionSource :: reactionSource
  storyReactionMessage :: "message option"

text \<open>
  What the methods observe of a \<open>ConversationModel\<close> (ts/models/conversations.ts is not
  part of the sources): attributes, and the results of the methods called on it.
\<close>

record conversation =
  conv_id :: string
  isDirectConversation :: bool
  isGroup :: bool
  isGroupV1 :: bool
  isMe :: bool
  conv_expireTimer :: "nat option"
  conv_active_at :: "int option"
  conv_timestamp :: "int option"
  conv_revision :: "nat option"
  conv_left :: bool
  conv_hasMembers :: bool
  announcementsOnly :: bool
  getAccepted :: bool
  canBeUnarchived :: bool
  getMemberConversationIds :: "string list"
  hasMember :: "string \<Rightarrow> bool"
  isAdmin :: "string \<Rightarrow> bool"

datatype jobType = Job_NormalMessage | Job_Reaction | Job_Story

record jobData =
  job_type :: jobType
  job_conversationId :: string
  job_messageId :: "string option"
  job_revision :: "nat option"

text \<open>The calls to collaborators, recorded in program order.\<close>

datatype effect =
  Confirm
  | SaveMessage message
  | SaveNewMessageBatch message
  | RegisterMessage message
  | NotificationRemoveBy "string option" "string option"
  | NotificationAdd "string option"
  | RemoveReactionFromConversation string string int
  | AddReaction string string int
  | ConversationNotify
  | AddSingleMessage message
  | UpdateConversation
  | HydrateStoryContext
  | EnqueueJob jobData bool
  | DeleteData
  | DebouncedUpdateLastMessage
  | DeleteSentProtoByMessageId "string option"
  | ScheduleOptimizeFTS
  | UpdateLastMessage
  | OnReadMessage int
  | SetArchived bool
  | ViewOnceOpenJob
  | HandleEditMessage
  | StoryReactionHandled
  | DeleteForEveryoneCalled
  | TriggerNewMessage
  | IncrementSentMessageCount
  | IncrementProgress
  | QueueUpdateUnread
  | SetRegistered
  | RespondToGroupV2Migration
  | MaybeRepairGroupV2
  | MaybeUpdateGroup
  | MaybeMergeContacts string
  | QueueDeliveryReceipt
  | CopyFromQuotedMessage
  | FindStoryMessage
  | UpgradeMessageSchema
  | ConversationSetActive bool
  | ConversationSetExpireTimer "nat option"
  | UpdateExpirationTimer "nat option"
  | SetProfileSharing
  | SetProfileKey
  | ConversationSetLastMessage
  | IncrementMessageCount
  | UpdateBadges
  | QueueAttachmentDownloads

datatype error = AssertionFailed string | Thrown string

subsection \<open>The model instance\<close>

text \<open>
  A \<open>MessageModel\<close> holds its attributes and two fields of its own:
  \<open>deletingForEveryone\<close>, set while \<open>handleDeleteForEveryone\<close> is in flight, and
  \<open>pendingMarkRead\<close>, the timestamp kept for the read cascade.
\<close>

record model =
  attributes :: message
  deletingForEveryone :: bool
  pendingMarkRead :: "int option"

text \<open>The pending modifiers of \<open>ts/messageModifiers\<close>, as far as the model reads them.\<close>

datatype receiptType = Delivery | ReadReceipt | ViewReceipt

record receipt =
  receiptType :: receiptType
  sourceConversationId :: string
  receiptTimestamp :: int

record readSync =
  readAt :: int

record viewSync =
  viewedAt :: int

datatype deleteModel = DeleteModel string int

subsection \<open>Imported helpers that are not part of the sources\<close>

text \<open>
  \<open>messages.ts\<close> imports the selectors of \<open>state/selectors/message\<close>, the send-state
  reducer of \<open>messages/MessageSendState\<close>, \<open>reactions/util\<close>, \<open>services/MessageUpdater\<close>,
  \<open>messages/helpers\<close>, \<open>util/deleteForEveryone\<close> and \<open>util/GoogleChrome\<close>. None of these
  files is in the sources, so the methods below take them as parameters, collected in one
  record. A call to \<open>deleteForEveryone\<close> or \<open>handleEditMessage\<close> is one effect in the list;
  what the callee does to collaborators is not part of it. \<open>linkPreviewAllowed body url\<close>
  stands for \<open>findLinks(body).includes(url) && shouldPreviewHref(url)\<close>, and
  \<open>holdOffDownload\<close> for the test of lines 2809-2822 on stories and calls.
\<close>

record helpers =
  sendStateReducer :: "sendState \<Rightarrow> sendAction \<Rightarrow> sendState"
  addOutgoingReaction :: "messageReaction list \<Rightarrow> messageReaction \<Rightarrow> messageReaction list"
  getMessagePropStatus :: "message \<Rightarrow> string \<Rightarrow> string option"
  markViewed :: "message \<Rightarrow> message"
  getSourceUuid :: "message \<Rightarrow> string option"
  deleteForEveryone :: "message \<Rightarrow> deleteModel \<Rightarrow> bool \<Rightarrow> message"
  linkPreviewAllowed :: "string \<Rightarrow> string \<Rightarrow> bool"
  hasAttachmentDownloads :: "message \<Rightarrow> bool"
  holdOffDownload :: "message \<Rightarrow> bool"
  isCallHistory :: "message \<Rightarrow> bool"
  isChatSessionRefreshed :: "message \<Rightarrow> bool"
  isDeliveryIssue :: "message \<Rightarrow> bool"
  isGiftBadge :: "message \<Rightarrow> bool"
  isGroupUpdate :: "message \<Rightarrow> bool"
  isGroupV2Change :: "message \<Rightarrow> bool"
  isEndSession :: "message \<Rightarrow> bool"
  isExpirationTimerUpdate :: "message \<Rightarrow> bool"
  isVerifiedChange :: "message \<Rightarrow> bool"
  isUnsupportedMessage :: "message \<Rightarrow> bool"
  isTapToView :: "message \<Rightarrow> bool"
  isKeyChange :: "message \<Rightarrow> bool"
  isProfileChange :: "message \<Rightarrow> bool"
  isUniversalTimerNotification :: "message \<Rightarrow> bool"
  isConversationMerge :: "message \<Rightarrow> bool"
  messageHasPaymentEvent :: "message \<Rightarrow> bool"
  isImageTypeSupported :: "string \<Rightarrow> bool"
  isVideoTypeSupported :: "string \<Rightarrow> bool"

text \<open>
  Modelled from the spec: the selectors \<open>isIncoming\<close>, \<open>isOutgoing\<close> and \<open>isStory\<close> of
  \<open>state/selectors/message\<close> are missing; the spec gives a message a
  \<open>type \<in> {incoming, outgoing, story}\<close>, and the code itself uses \<open>type === 'incoming'\<close>
  and \<open>isIncoming(attributes)\<close> interchangeably.
\<close>

definition isIncoming :: "message \<Rightarrow> bool" where
  "isIncoming m = (msg_type m = Incoming)"

definition isOutgoing :: "message \<Rightarrow> bool" where
  "isOutgoing m = (msg_type m = Outgoing)"

definition isStory :: "message \<Rightarrow> bool" where
  "isStory m = (msg_type m = Story)"

text \<open>
  Modelled from the spec: \<open>hasErrors\<close> of \<open>state/selectors/message\<close> is missing; the spec
  gives a message a list of errors, and a message has errors when that list is not empty.
\<close>

definition hasErrors :: "message \<Rightarrow> bool" where
  "hasErrors m = (case errors m of None \<Rightarrow> False | Some es \<Rightarrow> es \<noteq> [])"

text \<open>
  Modelled from the spec: \<open>isNewReactionReplacingPrevious\<close> of \<open>reactions/util\<close> is missing;
  the spec's replacement rule is one active reaction per \<open>fromId\<close> per target, a new event
  from the same \<open>fromId\<close> replacing the prior one.
\<close>

definition isNewReactionReplacingPrevious ::
  "'a messageReaction_scheme \<Rightarrow> 'b messageReaction_scheme \<Rightarrow> bool" where
  "isNewReactionReplacingPrevious reaction newReaction = (fromId reaction = fromId newReaction)"

text \<open>
  Modelled from the spec: \<open>isSent\<close> of \<open>messages/MessageSendState\<close> is missing; the spec
  calls Sent, Delivered, Read and Viewed the statuses a retry leaves untouched, and Pending
  and Failed the others.
\<close>

definition isSent :: "sendStatus \<Rightarrow> bool" where
  "isSent s = (s = Status_Sent \<or> s = Status_Delivered \<or> s = Status_Read \<or> s = Status_Viewed)"

text \<open>
  The process-wide lookups a method makes: \<open>window.ConversationController.get\<close>,
  \<open>getOurConversationIdOrThrow\<close>, \<open>shouldReplyNotifyUser\<close> and the story distribution lists
  of the store.
\<close>

record storyDistribution =
  allowsReplies :: bool
  distributionMembers :: "string list"

record world =
  conversationById :: "string \<Rightarrow> conversation option"
  ourConversationId :: "string option"
  ourUuid :: string
  shouldReplyNotifyUser :: "message \<Rightarrow> bool"
  areWePrimaryDevice :: bool
  getStoryDistributionWithMembers :: "string \<Rightarrow> storyDistribution option"

definition getConversation :: "world \<Rightarrow> message \<Rightarrow> conversation option" where
  "getConversation w m = conversationById w (conversationId m)"

subsection \<open>handleReaction\<close>

text \<open>lodash \<open>maxBy\<close>: the first element whose key is strictly greater than all before it.\<close>

fun maxByFrom :: "('a \<Rightarrow> int) \<Rightarrow> 'a \<Rightarrow> 'a list \<Rightarrow> 'a" where
  "maxByFrom key best [] = best"
| "maxByFrom key best (x # xs) = maxByFrom key (if key x > key best then x else best) xs"

definition maxBy :: "'a list \<Rightarrow> ('a \<Rightarrow> int) \<Rightarrow> 'a option" where
  "maxBy xs key = (case xs of [] \<Rightarrow> None | x # rest \<Rightarrow> Some (maxByFrom key x rest))"

text \<open>The \<open>newReaction\<close> object built from the reaction model (lines 3176-3185).\<close>

definition newReactionOf :: "conversation \<Rightarrow> reactionAttributes \<Rightarrow> messageReaction" where
  "newReactionOf conv reaction =
     \<lparr> emoji = (if remove reaction then None else emoji reaction),
       fromId = fromId reaction,
       targetAuthorUuid = targetAuthorUuid reaction,
       targetTimestamp = targetTimestamp reaction,
       timestamp = timestamp reaction,
       isSentByConversationId =
         (if reactionSource reaction = FromThisDevice
          then Some (map (\<lambda>i. (i, False)) (getMemberConversationIds conv))
          else None) \<rparr>"

text \<open>
  The branch for a reaction to a story that does not come from this device
  (lines 3195-3276). It changes the generated story-reaction message, not the receiver.
\<close>

definition storyReactionFromElsewhere ::
  "world \<Rightarrow> reactionAttributes \<Rightarrow> message \<Rightarrow> error + effect list" where
  "storyReactionFromElsewhere w reaction storyMessage =
     (case storyReactionMessage reaction of
        None \<Rightarrow> Inl (AssertionFailed ''Story reactions must provide storyReactionMessage'')
      | Some generatedMessage \<Rightarrow>
          (case conversationById w (conversationId generatedMessage) of
             None \<Rightarrow> Inl (AssertionFailed ''handleReaction: targetConversation not found'')
           | Some targetConversation \<Rightarrow>
               (let generated = generatedMessage
                      \<lparr> expireTimer :=
                          (if isDirectConversation targetConversation
                           then conv_expireTimer targetConversation else None),
                        storyId := msg_id storyMessage,
                        storyReaction := Some
                          \<lparr> sr_emoji = emoji reaction,
                            sr_targetAuthorUuid = targetAuthorUuid reaction,
                            sr_targetTimestamp = targetTimestamp reaction \<rparr> \<rparr>
                in Inr ([SaveMessage generated, HydrateStoryContext, RegisterMessage generated]
                     @ (if isDirectConversation targetConversation
                        then AddSingleMessage generated
                             # (if conv_active_at targetConversation = None
                                  \<or> conv_active_at targetConversation = Some 0
                                then [UpdateConversation] else [])
                        else [])
                     @ (if reactionSource reaction = FromSomeoneElse
                           \<and> shouldReplyNotifyUser w generated
                        then [ConversationNotify] else [])))))"

text \<open>
  The branch for a reaction to any other message that does not come from this device
  (lines 3293-3365): the new \<open>reactions\<close> array and the store calls.
\<close>

definition reactionFromElsewhere ::
  "reactionAttributes \<Rightarrow> messageReaction \<Rightarrow> message \<Rightarrow> message \<times> effect list" where
  "reactionFromElsewhere reaction newReaction this =
     (let oldReactions = (case reactions this of None \<Rightarrow> [] | Some rs \<Rightarrow> rs);
          isFromSync = (reactionSource reaction = FromSync);
          isFromSomeoneElse = (reactionSource reaction = FromSomeoneElse);
          cleared = (case find (\<lambda>re. isNewReactionReplacingPrevious re newReaction) oldReactions of
                       None \<Rightarrow> []
                     | Some oldReaction \<Rightarrow>
                         [NotificationRemoveBy (msg_id this) (Some (fromId oldReaction))])
      in if remove reaction
         then
           (let rs = (if isFromSync
                      then filter (\<lambda>re. \<not> isNewReactionReplacingPrevious re newReaction
                                         \<or> timestamp re > timestamp reaction) oldReactions
                      else filter (\<lambda>re. \<not> isNewReactionReplacingPrevious re newReaction)
                             oldReactions)
            in (this\<lparr>reactions := Some rs\<rparr>,
                cleared @ [RemoveReactionFromConversation (fromId reaction)
                             (targetAuthorUuid reaction) (targetTimestamp reaction)]))
         else
           (let reactionToAdd =
                  (if isFromSync
                   then (case maxBy (newReaction
                                      # filter (\<lambda>re. fromId re = fromId reaction) oldReactions)
                                 timestamp of
                           None \<Rightarrow> newReaction
                         | Some r \<Rightarrow> r)
                   else newReaction);
                rs = filter (\<lambda>re. \<not> isNewReactionReplacingPrevious re reaction) oldReactions
                     @ [reactionToAdd]
            in (this\<lparr>reactions := Some rs\<rparr>,
                cleared
                @ (if isOutgoing this \<and> isFromSomeoneElse then [ConversationNotify] else [])
                @ [AddReaction (fromId reaction) (targetAuthorUuid reaction)
                     (targetTimestamp reaction)])))"

text \<open>
  The tail of the method (lines 3376-3437): a reaction from this device is enqueued for
  sending; any other is saved, unless told not to or the receiver is a story.
\<close>

definition reactionSendOrSave ::
  "conversation \<Rightarrow> reactionAttributes \<Rightarrow> messageReaction \<Rightarrow> message option \<Rightarrow> bool
     \<Rightarrow> message \<Rightarrow> error + effect list" where
  "reactionSendOrSave conv reaction newReaction storyMessage shouldPersist this =
     (if reactionSource reaction = FromThisDevice
      then
        (case storyMessage of
           Some sm \<Rightarrow>
             (if emoji newReaction = None
              then Inl (AssertionFailed ''New story reaction must have an emoji'')
              else case storyReactionMessage reaction of
                     None \<Rightarrow>
                       Inl (AssertionFailed ''Story reactions must provide storyReactionmessage'')
                   | Some generatedMessage \<Rightarrow>
                       Inr ([SaveMessage generatedMessage, HydrateStoryContext,
                             RegisterMessage generatedMessage, AddSingleMessage generatedMessage,
                             EnqueueJob \<lparr> job_type = Job_NormalMessage,
                                          job_conversationId = conv_id conv,
                                          job_messageId = msg_id generatedMessage,
                                          job_revision = conv_revision conv \<rparr> shouldPersist]
                            @ (if shouldPersist then [SaveMessage this] else [])))
         | None \<Rightarrow>
             Inr ([EnqueueJob \<lparr> job_type = Job_Reaction,
                                job_conversationId = conv_id conv,
                                job_messageId = msg_id this,
                                job_revision = conv_revision conv \<rparr> shouldPersist]
                  @ (if shouldPersist then [SaveMessage this] else [])))
      else if shouldPersist \<and> \<not> isStory this then Inr [SaveMessage this]
      else Inr [])"

definition handleReaction ::
  "helpers \<Rightarrow> world \<Rightarrow> reactionAttributes \<Rightarrow> message option \<Rightarrow> bool \<Rightarrow> message
     \<Rightarrow> error + (message \<times> effect list)" where
  "handleReaction h w reaction storyMessage shouldPersist this =
     (if deletedForEveryone this then Inr (this, [])
      else if hasErrors this \<and> \<not> isIncoming this \<and> ourConversationId w = None
      then Inl (Thrown ''getOurConversationIdOrThrow'')
      else if hasErrors this
              \<and> (isIncoming this
                  \<or> getMessagePropStatus h this (the (ourConversationId w)) \<noteq> Some ''partial-sent'')
      then Inr (this, [])
      else case getConversation w this of
        None \<Rightarrow> Inr (this, [])
      | Some conv \<Rightarrow>
          (let newReaction = newReactionOf conv reaction;
               isFromThisDevice = (reactionSource reaction = FromThisDevice);
               applied =
                 (case storyMessage of
                    Some sm \<Rightarrow>
                      (if isFromThisDevice then Inr (this, [])
                       else case storyReactionFromElsewhere w reaction sm of
                              Inl e \<Rightarrow> Inl e
                            | Inr effs \<Rightarrow> Inr (this, effs))
                  | None \<Rightarrow>
                      (if isFromThisDevice
                       then Inr (this\<lparr>reactions := Some (addOutgoingReaction h
                                   (case reactions this of None \<Rightarrow> [] | Some rs \<Rightarrow> rs)
                                   newReaction)\<rparr>, [])
                       else Inr (reactionFromElsewhere reaction newReaction this)))
           in case applied of
                Inl e \<Rightarrow> Inl e
              | Inr (this', effs) \<Rightarrow>
                  (case reactionSendOrSave conv reaction newReaction storyMessage
                          shouldPersist this' of
                     Inl e \<Rightarrow> Inl e
                   | Inr effs' \<Rightarrow> Inr (this', effs @ effs'))))"


subsection \<open>eraseContents and handleDeleteForEveryone\<close>

text \<open>
  \<open>eraseContents(additionalProperties, shouldPersist)\<close>, lines 1116-1157. The object
  \<open>additionalProperties\<close> is spread last into the \<open>set\<close> call, so it is an update
  applied after the erasing one. An error of \<open>deleteData\<close> is caught and logged.
\<close>

definition eraseContents ::
  "world \<Rightarrow> (message \<Rightarrow> message) \<Rightarrow> bool \<Rightarrow> message \<Rightarrow> message \<times> effect list" where
  "eraseContents w additionalProperties shouldPersist this =
     (let erased = additionalProperties
            (this\<lparr> attachments := Some [],
                   body := Some [],
                   bodyRanges := None,
                   contact := Some [],
                   editHistory := None,
                   isErased := True,
                   preview := Some [],
                   quote := None,
                   sticker := None \<rparr>)
      in (erased,
          [DeleteData]
          @ (if getConversation w this = None then [] else [DebouncedUpdateLastMessage])
          @ (if shouldPersist then [SaveMessage erased] else [])
          @ [DeleteSentProtoByMessageId (msg_id erased), ScheduleOptimizeFTS]))"

text \<open>\<open>handleDeleteForEveryone(del, shouldPersist)\<close>, lines 3440-3473.\<close>

definition handleDeleteForEveryone :: "world \<Rightarrow> bool \<Rightarrow> model \<Rightarrow> model \<times> effect list" where
  "handleDeleteForEveryone w shouldPersist this =
     (if deletingForEveryone this \<or> deletedForEveryone (attributes this) then (this, [])
      else
        (let (erased, effs) =
               eraseContents w (\<lambda>m. m\<lparr>deletedForEveryone := True, reactions := Some []\<rparr>)
                 shouldPersist (attributes this)
         in (this\<lparr>attributes := erased, deletingForEveryone := False\<rparr>,
             [NotificationRemoveBy (msg_id (attributes this)) None]
             @ effs
             @ (if getConversation w erased = None then [] else [UpdateLastMessage]))))"

subsection \<open>View-once messages\<close>

text \<open>\<open>isValidTapToView()\<close>, lines 934-968. An empty body is falsy.\<close>

definition isValidTapToView :: "helpers \<Rightarrow> message \<Rightarrow> bool" where
  "isValidTapToView h this =
     (if body this \<noteq> None \<and> body this \<noteq> Some [] then False
      else case attachments this of
        None \<Rightarrow> False
      | Some as \<Rightarrow>
          (case as of
             [firstAttachment] \<Rightarrow>
               (if \<not> isImageTypeSupported h (contentType firstAttachment)
                   \<and> \<not> isVideoTypeSupported h (contentType firstAttachment)
                then False
                else if quote this \<noteq> None
                        \<or> sticker this \<noteq> None
                        \<or> (case contact this of None \<Rightarrow> False | Some cs \<Rightarrow> cs \<noteq> [])
                        \<or> (case preview this of None \<Rightarrow> False | Some ps \<Rightarrow> ps \<noteq> [])
                then False
                else True)
           | _ \<Rightarrow> False))"

text \<open>\<open>markViewOnceMessageViewed({ fromSync })\<close>, lines 970-1027.\<close>

definition markViewOnceMessageViewed ::
  "helpers \<Rightarrow> world \<Rightarrow> bool \<Rightarrow> message \<Rightarrow> error + (message \<times> effect list)" where
  "markViewOnceMessageViewed h w fromSync this =
     (if \<not> isValidTapToView h this then Inr (this, [])
      else if isErased this then Inr (this, [])
      else
        (let viewed = (if readStatus this \<noteq> Some Viewed then markViewed h this else this);
             (erased, effs) = eraseContents w (\<lambda>m. m) True viewed
         in if fromSync then Inr (erased, effs)
            else if getSourceUuid h erased = None
            then Inl (Thrown ''markViewOnceMessageViewed: senderUuid is undefined'')
            else if areWePrimaryDevice w then Inr (erased, effs)
            else Inr (erased, effs @ [ViewOnceOpenJob])))"

subsection \<open>isEmpty\<close>

text \<open>\<open>isEmpty()\<close>, lines 1159-1226. An empty string is falsy.\<close>

definition isEmpty :: "helpers \<Rightarrow> message \<Rightarrow> bool" where
  "isEmpty h this =
     (let hasBody = (body this \<noteq> None \<and> body this \<noteq> Some []);
          hasAttachment = (case attachments this of None \<Rightarrow> False | Some as \<Rightarrow> length as > 0);
          hasEmbeddedContact = (case contact this of None \<Rightarrow> False | Some cs \<Rightarrow> length cs > 0);
          isSticker = (sticker this \<noteq> None);
          isCallHistoryValue = isCallHistory h this;
          isChatSessionRefreshedValue = isChatSessionRefreshed h this;
          isDeliveryIssueValue = isDeliveryIssue h this;
          isGiftBadgeValue = isGiftBadge h this;
          isGroupUpdateValue = isGroupUpdate h this;
          isGroupV2ChangeValue = isGroupV2Change h this;
          isEndSessionValue = isEndSession h this;
          isExpirationTimerUpdateValue = isExpirationTimerUpdate h this;
          isVerifiedChangeValue = isVerifiedChange h this;
          isUnsupportedMessageValue = isUnsupportedMessage h this;
          isTapToViewValue = isTapToView h this;
          hasErrorsValue = hasErrors this;
          isKeyChangeValue = isKeyChange h this;
          isProfileChangeValue = isProfileChange h this;
          isUniversalTimerNotificationValue = isUniversalTimerNotification h this;
          isConversationMergeValue = isConversationMerge h this;
          isPayment = messageHasPaymentEvent h this;
          hasSomethingToDisplay =
            (hasBody \<or> hasAttachment \<or> hasEmbeddedContact \<or> isSticker \<or> isPayment
             \<or> isCallHistoryValue \<or> isChatSessionRefreshedValue \<or> isDeliveryIssueValue
             \<or> isGiftBadgeValue \<or> isGroupUpdateValue \<or> isGroupV2ChangeValue
             \<or> isEndSessionValue \<or> isExpirationTimerUpdateValue \<or> isVerifiedChangeValue
             \<or> isUnsupportedMessageValue \<or> isTapToViewValue
             \<or> hasErrorsValue
             \<or> isKeyChangeValue \<or> isProfileChangeValue
             \<or> isUniversalTimerNotificationValue \<or> isConversationMergeValue)
      in \<not> hasSomethingToDisplay)"

subsection \<open>markFailed and retrySend\<close>

text \<open>\<open>this.get('sendStateByConversationId') || {}\<close>.\<close>

definition sendStatesOrEmpty :: "message \<Rightarrow> (string \<rightharpoonup> sendState)" where
  "sendStatesOrEmpty m = (case sendStateByConversationId m of None \<Rightarrow> Map.empty | Some s \<Rightarrow> s)"

text \<open>
  \<open>markFailed()\<close> with \<open>notifyStorySendFailed()\<close>, lines 1421-1452: every send state goes
  through the reducer with the action Failed, all with the same time.
\<close>

definition markFailed :: "helpers \<Rightarrow> int \<Rightarrow> message \<Rightarrow> message \<times> effect list" where
  "markFailed h now this =
     (this\<lparr>sendStateByConversationId := Some
        (\<lambda>k. map_option
               (\<lambda>sendState. sendStateReducer h sendState
                                \<lparr>actionType = Action_Failed, actionUpdatedAt = now\<rparr>)
               (sendStatesOrEmpty this k))\<rparr>,
      if isStory this then [NotificationAdd (msg_id this)] else [])"

text \<open>
  The recipients \<open>retrySend\<close> retries to, lines 1307-1329: the members of the story's
  distribution list that have a conversation, or else the members of the conversation.
  \<open>None\<close> when the message names a distribution list that the store does not have.
\<close>

definition currentConversationRecipients ::
  "world \<Rightarrow> conversation \<Rightarrow> message \<Rightarrow> string set option" where
  "currentConversationRecipients w conv this =
     (case storyDistributionListId this of
        None \<Rightarrow> Some (set (getMemberConversationIds conv))
      | Some listId \<Rightarrow>
          (if listId = [] then Some (set (getMemberConversationIds conv))
           else case getStoryDistributionWithMembers w listId of
                  None \<Rightarrow> None
                | Some storyDistribution \<Rightarrow>
                    Some (set (map conv_id
                      (List.map_filter (conversationById w)
                         (distributionMembers storyDistribution))))))"

text \<open>
  \<open>retrySend()\<close>, lines 1303-1395. The conversation is the one the code asserts to exist
  (\<open>this.getConversation()!\<close>). The loop over the entries of the old send states reads the
  clock once per entry: \<open>nowAt k\<close> is the time read for the entry of \<open>k\<close>, and \<open>now\<close> the
  time \<open>markFailed\<close> reads.
\<close>

definition retrySend ::
  "helpers \<Rightarrow> world \<Rightarrow> conversation \<Rightarrow> int \<Rightarrow> (string \<Rightarrow> int) \<Rightarrow> message
     \<Rightarrow> message \<times> effect list" where
  "retrySend h w conv now nowAt this =
     (case currentConversationRecipients w conv this of
        None \<Rightarrow> markFailed h now this
      | Some recipients \<Rightarrow>
          (let oldSendStateByConversationId = sendStatesOrEmpty this;
               newSendStateByConversationId =
                 (\<lambda>k. case oldSendStateByConversationId k of
                         None \<Rightarrow> None
                       | Some sendState \<Rightarrow>
                           (if isSent (status sendState) then Some sendState
                            else case conversationById w k of
                                   None \<Rightarrow> Some sendState
                                 | Some recipient \<Rightarrow>
                                     (if k \<notin> recipients \<and> \<not> isMe recipient
                                      then Some sendState
                                      else Some (sendStateReducer h sendState
                                             \<lparr>actionType = ManuallyRetried,
                                              actionUpdatedAt = nowAt k\<rparr>))));
               retried = this\<lparr>sendStateByConversationId := Some newSendStateByConversationId\<rparr>
           in (retried,
               [EnqueueJob \<lparr> job_type = (if isStory retried then Job_Story
                                          else Job_NormalMessage),
                              job_conversationId = conv_id conv,
                              job_messageId = msg_id retried,
                              job_revision = (if isStory retried then None
                                              else conv_revision conv) \<rparr> True,
                SaveMessage retried])))"

subsection \<open>modifyTargetMessage\<close>

text \<open>
  What the singletons \<open>MessageReceipts\<close>, \<open>ReadSyncs\<close>, \<open>ViewSyncs\<close>,
  \<open>ViewOnceOpenSyncs\<close>, \<open>Reactions\<close>, \<open>Deletes\<close> and \<open>Edits\<close> return from
  \<open>forMessage(message)\<close> in one pass.
\<close>

record pendingModifiers =
  receiptsFor :: "receipt list"
  readSyncFor :: "readSync option"
  viewSyncsFor :: "viewSync list"
  viewOnceOpenSyncFor :: bool
  reactionsFor :: "reactionAttributes list"
  deletesFor :: "deleteModel list"
  editsFor :: nat

text \<open>
  The readings of \<open>Date.now()\<close> in one pass, in the order of the calls: lines 2971, 2982,
  3005, 3052 and 3056.
\<close>

record passClock =
  nowMarkReadAt :: int
  nowExpirationStart :: int
  nowPendingMarkRead :: int
  nowStoryMarkReadAt :: int
  nowStoryPendingMarkRead :: int

text \<open>The send action of a receipt (lines 2898-2922).\<close>

definition sendActionOf :: "receipt \<Rightarrow> string \<times> sendAction" where
  "sendActionOf r =
     (sourceConversationId r,
      \<lparr> actionType = (case receiptType r of
                        Delivery \<Rightarrow> GotDeliveryReceipt
                      | ReadReceipt \<Rightarrow> GotReadReceipt
                      | ViewReceipt \<Rightarrow> GotViewedReceipt),
        actionUpdatedAt = receiptTimestamp r \<rparr>)"

text \<open>
  The block for an outgoing message or one of our own stories (lines 2895-2956): the
  receipts are folded into the send states; a receipt for a conversation without a send
  state is dropped.
\<close>

definition applyReceipts :: "helpers \<Rightarrow> receipt list \<Rightarrow> message \<Rightarrow> message \<times> bool" where
  "applyReceipts h receipts this =
     (let oldSendStateByConversationId = sendStatesOrEmpty this;
          newSendStateByConversationId =
            fold (\<lambda>(destinationConversationId, action) result.
                    case result destinationConversationId of
                      None \<Rightarrow> result
                    | Some oldSendState \<Rightarrow>
                        result(destinationConversationId \<mapsto>
                                 sendStateReducer h oldSendState action))
              (map sendActionOf receipts) oldSendStateByConversationId
      in if oldSendStateByConversationId \<noteq> newSendStateByConversationId
         then (this\<lparr>sendStateByConversationId := Some newSendStateByConversationId\<rparr>, True)
         else (this, False))"

text \<open>\<open>Math.min(now, ...readAt, ...viewedAt)\<close>, lines 2970-2974.\<close>

definition markReadAtOf :: "int \<Rightarrow> readSync list \<Rightarrow> viewSync list \<Rightarrow> int" where
  "markReadAtOf now readSyncs viewSyncs =
     fold min (map readAt readSyncs @ map viewedAt viewSyncs) now"

text \<open>
  The block for read and view syncs of an incoming message, lines 2961-3014. A timer of
  zero and an empty \<open>storyId\<close> are falsy. The result holds the model, whether it changed,
  and the effects.
\<close>

definition applyReadAndViewSyncs ::
  "passClock \<Rightarrow> conversation \<Rightarrow> bool \<Rightarrow> readSync option \<Rightarrow> viewSync list \<Rightarrow> model
     \<Rightarrow> model \<times> bool \<times> effect list" where
  "applyReadAndViewSyncs clock conv isFirstRun readSync viewSyncs this =
     (let readSyncs = (case readSync of None \<Rightarrow> [] | Some r \<Rightarrow> [r]);
          message = attributes this;
          isGroupStoryReply =
            (isGroup conv \<and> storyId message \<noteq> None \<and> storyId message \<noteq> Some [])
      in if readSyncs \<noteq> [] \<or> viewSyncs \<noteq> []
         then
           (let markReadAt = markReadAtOf (nowMarkReadAt clock) readSyncs viewSyncs;
                withExpiration =
                  (if expireTimer message \<noteq> None \<and> expireTimer message \<noteq> Some 0
                   then message\<lparr>expirationStartTimestamp := Some
                          (min (case expirationStartTimestamp message of
                                  None \<Rightarrow> nowExpirationStart clock
                                | Some existingExpirationStartTimestamp \<Rightarrow>
                                    existingExpirationStartTimestamp)
                               markReadAt)\<rparr>
                   else message);
                newReadStatus = (if viewSyncs \<noteq> [] then Viewed else Read)
            in (this\<lparr> attributes := withExpiration
                         \<lparr>readStatus := Some newReadStatus, seenStatus := Some Seen\<rparr>,
                       pendingMarkRead := Some
                         (min (case pendingMarkRead this of
                                 None \<Rightarrow> nowPendingMarkRead clock
                               | Some p \<Rightarrow> p)
                              markReadAt) \<rparr>,
                True, []))
         else if isFirstRun \<and> \<not> isGroupStoryReply \<and> canBeUnarchived conv
         then (this, False, [SetArchived False])
         else (this, False, []))"

text \<open>
  The read cascade, lines 3016-3028: only in the second run, and only when a time is
  pending (zero is falsy). The pending time is cleared even without a conversation.
\<close>

definition cascadeMarkRead :: "world \<Rightarrow> bool \<Rightarrow> model \<Rightarrow> model \<times> effect list" where
  "cascadeMarkRead w isFirstRun this =
     (case pendingMarkRead this of
        None \<Rightarrow> (this, [])
      | Some markReadAt \<Rightarrow>
          (if \<not> isFirstRun \<and> markReadAt \<noteq> 0
           then (this\<lparr>pendingMarkRead := None\<rparr>,
                 if getConversation w (attributes this) = None then []
                 else [OnReadMessage markReadAt])
           else (this, [])))"

text \<open>The out-of-order view-once open sync, lines 3030-3038.\<close>

definition applyViewOnceOpenSync ::
  "helpers \<Rightarrow> world \<Rightarrow> bool \<Rightarrow> model \<Rightarrow> error + (model \<times> bool \<times> effect list)" where
  "applyViewOnceOpenSync h w viewOnceOpenSync this =
     (if isTapToView h (attributes this) \<and> viewOnceOpenSync
      then (case markViewOnceMessageViewed h w True (attributes this) of
              Inl e \<Rightarrow> Inl e
            | Inr (m, effs) \<Rightarrow> Inr (this\<lparr>attributes := m\<rparr>, True, effs))
      else Inr (this, False, []))"

text \<open>The block for a story, lines 3041-3072. A start timestamp of zero is falsy.\<close>

definition applyStoryViewSyncs ::
  "passClock \<Rightarrow> viewSync list \<Rightarrow> model \<Rightarrow> model \<times> bool" where
  "applyStoryViewSyncs clock viewSyncs this =
     (let viewed =
            (if viewSyncs \<noteq> []
             then this\<lparr> attributes := (attributes this)
                          \<lparr>readStatus := Some Viewed, seenStatus := Some Seen\<rparr>,
                        pendingMarkRead := Some
                          (min (case pendingMarkRead this of
                                  None \<Rightarrow> nowStoryPendingMarkRead clock
                                | Some p \<Rightarrow> p)
                               (markReadAtOf (nowStoryMarkReadAt clock) [] viewSyncs)) \<rparr>
             else this);
          noStart = (expirationStartTimestamp (attributes viewed) = None
                     \<or> expirationStartTimestamp (attributes viewed) = Some 0)
      in (if noStart
          then viewed\<lparr>attributes := (attributes viewed)
                 \<lparr>expirationStartTimestamp := Some (msg_timestamp (attributes viewed))\<rparr>\<rparr>
          else viewed,
          viewSyncs \<noteq> [] \<or> noStart))"

text \<open>
  The pending reactions, lines 3075-3093. The handlers are started in order and each
  changes the \<open>reactions\<close> attribute before it first waits, so the attribute goes through
  the reactions in order. A reaction to a story is handled by the generated message.
\<close>

fun applyReactions ::
  "helpers \<Rightarrow> world \<Rightarrow> reactionAttributes list \<Rightarrow> message
     \<Rightarrow> error + (message \<times> bool \<times> effect list)" where
  "applyReactions h w [] this = Inr (this, False, [])"
| "applyReactions h w (reaction # rest) this =
     (if isStory this
      then (case storyReactionMessage reaction of
              None \<Rightarrow> Inl (AssertionFailed ''Story reactions must provide storyReactionMessage'')
            | Some generatedMessage \<Rightarrow>
                (case handleReaction h w reaction (Some this) True generatedMessage of
                   Inl e \<Rightarrow> Inl e
                 | Inr (generated, effs) \<Rightarrow>
                     (case applyReactions h w rest this of
                        Inl e \<Rightarrow> Inl e
                      | Inr (m, changed, effs') \<Rightarrow> Inr (m, changed, effs @ effs'))))
      else (case handleReaction h w reaction None False this of
              Inl e \<Rightarrow> Inl e
            | Inr (reacted, effs) \<Rightarrow>
                (case applyReactions h w rest reacted of
                   Inl e \<Rightarrow> Inl e
                 | Inr (m, changed, effs') \<Rightarrow> Inr (m, True, effs @ effs'))))"

text \<open>The pending deletes, lines 3097-3103, each handed to \<open>deleteForEveryone\<close>.\<close>

fun applyDeletes ::
  "helpers \<Rightarrow> deleteModel list \<Rightarrow> message \<Rightarrow> message \<times> effect list" where
  "applyDeletes h [] this = (this, [])"
| "applyDeletes h (del # rest) this =
     (let (m, effs) = applyDeletes h rest (deleteForEveryone h this del False)
      in (m, DeleteForEveryoneCalled # effs))"

text \<open>
  The blocks for an incoming message in their order, lines 2958-3039: read and view
  syncs, the read cascade, the view-once open sync.
\<close>

definition applyIncomingBlocks ::
  "helpers \<Rightarrow> world \<Rightarrow> passClock \<Rightarrow> pendingModifiers \<Rightarrow> conversation \<Rightarrow> bool \<Rightarrow> model
     \<Rightarrow> error + (model \<times> bool \<times> effect list)" where
  "applyIncomingBlocks h w clock pending conv isFirstRun this =
     (case applyReadAndViewSyncs clock conv isFirstRun (readSyncFor pending)
             (viewSyncsFor pending) this of
        (this2, changed2, effs2) \<Rightarrow>
          (case cascadeMarkRead w isFirstRun this2 of
             (this3, effs3) \<Rightarrow>
               (case applyViewOnceOpenSync h w (viewOnceOpenSyncFor pending) this3 of
                  Inl e \<Rightarrow> Inl e
                | Inr (this4, changed4, effs4) \<Rightarrow>
                    Inr (this4, changed2 \<or> changed4, effs2 @ effs3 @ effs4))))"

text \<open>
  The blocks for every type of message, lines 3041-3129: story view syncs, pending
  reactions, pending deletes, the edits of the second run, and the save of the second run
  when something changed. \<open>changedBefore\<close> and \<open>effsBefore\<close> come from the blocks above.
\<close>

definition applyLaterBlocks ::
  "helpers \<Rightarrow> world \<Rightarrow> passClock \<Rightarrow> pendingModifiers \<Rightarrow> bool \<Rightarrow> bool \<Rightarrow> effect list
     \<Rightarrow> model \<Rightarrow> error + (model \<times> effect list)" where
  "applyLaterBlocks h w clock pending isFirstRun changedBefore effsBefore this =
     (case (if isStory (attributes this)
            then applyStoryViewSyncs clock (viewSyncsFor pending) this
            else (this, False)) of
        (this5, changedStory) \<Rightarrow>
          (case applyReactions h w (reactionsFor pending) (attributes this5) of
             Inl e \<Rightarrow> Inl e
           | Inr (m6, changedReactions, effsReactions) \<Rightarrow>
               (case applyDeletes h (deletesFor pending) m6 of
                  (m7, effsDeletes) \<Rightarrow>
                    Inr (this5\<lparr>attributes := m7\<rparr>,
                         effsBefore @ effsReactions @ effsDeletes
                         @ (if \<not> isFirstRun
                            then replicate (editsFor pending) HandleEditMessage else [])
                         @ (if (changedBefore \<or> changedStory \<or> changedReactions
                                \<or> deletesFor pending \<noteq> []) \<and> \<not> isFirstRun
                            then [SaveMessage m7] else [])))))"

text \<open>
  \<open>modifyTargetMessage(conversation, isFirstRun)\<close>, lines 2884-3130, as the sequence of
  its blocks.
\<close>

definition modifyTargetMessage ::
  "helpers \<Rightarrow> world \<Rightarrow> passClock \<Rightarrow> pendingModifiers \<Rightarrow> conversation \<Rightarrow> bool \<Rightarrow> model
     \<Rightarrow> error + (model \<times> effect list)" where
  "modifyTargetMessage h w clock pending conv isFirstRun this =
     (case (if msg_type (attributes this) = Outgoing
               \<or> (msg_type (attributes this) = Story
                   \<and> Some (ourUuid w) = getSourceUuid h (attributes this))
            then applyReceipts h (receiptsFor pending) (attributes this)
            else (attributes this, False)) of
        (m1, changed1) \<Rightarrow>
          (case (if msg_type (attributes this) = Incoming
                 then applyIncomingBlocks h w clock pending conv isFirstRun
                        (this\<lparr>attributes := m1\<rparr>)
                 else Inr (this\<lparr>attributes := m1\<rparr>, False, [])) of
             Inl e \<Rightarrow> Inl e
           | Inr (this4, changedIncoming, effsIncoming) \<Rightarrow>
               applyLaterBlocks h w clock pending isFirstRun (changed1 \<or> changedIncoming)
                 effsIncoming this4))"

subsection \<open>saveAndNotify\<close>

text \<open>
  \<open>saveAndNotify(conversation, confirm)\<close>, lines 2849-2879: the message goes to the save
  batcher, and the second run of \<open>modifyTargetMessage\<close> comes after that has completed.
\<close>

definition saveAndNotify ::
  "helpers \<Rightarrow> world \<Rightarrow> passClock \<Rightarrow> pendingModifiers \<Rightarrow> conversation \<Rightarrow> model
     \<Rightarrow> error + (model \<times> effect list)" where
  "saveAndNotify h w clock pending conv this =
     (case modifyTargetMessage h w clock pending conv False this of
        Inl e \<Rightarrow> Inl e
      | Inr (this', effs) \<Rightarrow>
          Inr (this',
               [SaveNewMessageBatch (attributes this), TriggerNewMessage]
               @ effs
               @ (if shouldReplyNotifyUser w (attributes this') then [ConversationNotify] else [])
               @ (if msg_type (attributes this') = Outgoing then [IncrementSentMessageCount]
                  else [])
               @ [IncrementProgress, Confirm]
               @ (if \<not> isStory (attributes this') then [QueueUpdateUnread] else [])))"

subsection \<open>handleDataMessage: inputs and collaborators\<close>

record groupV2Context =
  gv2_revision :: "nat option"
  gv2_groupChange :: "string option"
  gv2_masterKey :: "string option"
  gv2_secretParams :: "string option"
  gv2_publicParams :: "string option"

text \<open>
  \<open>ProcessedDataMessage\<close> (\<open>initialMessage\<close>), as far as the method reads it directly.
  \<open>hasStoryContext\<close> is the truthiness of \<open>initialMessage.storyContext\<close>.
\<close>

record processedDataMessage =
  groupV2 :: "groupV2Context option"
  hasStoryContext :: bool
  dm_giftBadge :: "nat option"
  dm_expireTimer :: "nat option"
  profileKey :: "string option"
  dm_timestamp :: int

record unidentifiedDeliveryStatus =
  destinationUuid :: "string option"
  destination :: "string option"
  unidentified :: bool

text \<open>
  \<open>SentEventData\<close>. \<open>unidentifiedStatus\<close> is \<open>None\<close> when it is not an array, and
  \<open>sentTimestamp\<close> is \<open>None\<close> when \<open>data.timestamp\<close> is not a normal number.
\<close>

record sentEventData =
  isRecipientUpdate :: bool
  unidentifiedStatus :: "unidentifiedDeliveryStatus list option"
  sentTimestamp :: "int option"

text \<open>
  The collaborators the method calls: \<open>window.Signal.Groups\<close>, the conversation
  controller, the blocked list, the account and the UUID generator. A call that changes a
  conversation returns the changed conversation.
\<close>

record collaborators =
  respondToGroupV2Migration :: "conversation \<Rightarrow> groupV2Context \<Rightarrow> conversation"
  maybeRepairGroupV2 :: "conversation \<Rightarrow> groupV2Context \<Rightarrow> conversation"
  maybeUpdateGroup :: "conversation \<Rightarrow> groupV2Context \<Rightarrow> error + conversation"
  lookupOrCreate :: "string option \<Rightarrow> string option \<Rightarrow> conversation option"
  maybeMergeContacts :: "string option \<Rightarrow> string option \<Rightarrow> conversation option"
  isBlocked :: "string \<Rightarrow> bool"
  isUuidBlocked :: "string \<Rightarrow> bool"
  ourACI :: string
  ourNumber :: "string option"
  generateUuid :: string

text \<open>
  What the method obtains while it handles one payload: whether \<open>getContact\<close> finds the
  sender, the results of \<open>copyFromQuotedMessage\<close>, \<open>findStoryMessage\<close> and
  \<open>upgradeMessageSchema\<close>, the outcome of the badge fetch for a gift badge (\<open>None\<close> when
  it succeeds), the clock readings, and the pending modifiers of the two runs of
  \<open>modifyTargetMessage\<close>. \<open>copyFromQuotedMessage\<close> (lines 1948-2003) only matters here
  through its result; it throws when the quote has no id.
\<close>

record arrival =
  fromContactFound :: bool
  copiedQuote :: "error + quotedMessage option"
  storyQuote :: "message option"
  dataMessage :: message
  giftBadgeFailure :: "error option"
  nowDecrypted :: int
  nowMerge :: int
  firstRunClock :: passClock
  firstRunPending :: pendingModifiers
  secondRunClock :: passClock
  secondRunPending :: pendingModifiers

text \<open>
  Modelled from the spec: the in-memory identity index (\<open>window.MessageController\<close>) and
  the persistent store (\<open>window.Signal.Data\<close>) are missing. The spec describes the index
  as a lookup by sender identity and timestamp, and the store as keyed by message id with
  \<open>sent_at\<close> as a secondary lookup key. Both are lists of attribute bags here; registering
  or saving a message replaces the entry with the same id, or adds one.
\<close>

record stores =
  messageController :: "message list"
  database :: "message list"

definition upsertById :: "message \<Rightarrow> message list \<Rightarrow> message list" where
  "upsertById m ms =
     (if \<exists>x \<in> set ms. msg_id x = msg_id m
      then map (\<lambda>x. if msg_id x = msg_id m then m else x) ms
      else ms @ [m])"

fun applyEffect :: "effect \<Rightarrow> stores \<Rightarrow> stores" where
  "applyEffect (RegisterMessage m) st = st\<lparr>messageController := upsertById m (messageController st)\<rparr>"
| "applyEffect (SaveMessage m) st = st\<lparr>database := upsertById m (database st)\<rparr>"
| "applyEffect (SaveNewMessageBatch m) st = st\<lparr>database := upsertById m (database st)\<rparr>"
| "applyEffect e st = st"

definition storesAfter :: "effect list \<Rightarrow> stores \<Rightarrow> stores" where
  "storesAfter effs st = fold applyEffect effs st"

text \<open>
  \<open>getSenderIdentifier()\<close>, lines 307-321. The template string
  \<open>`${conversation?.id}.${sourceDevice}-${sentAt}`\<close> is kept as the triple of its parts.
\<close>

definition getSenderIdentifier ::
  "collaborators \<Rightarrow> message \<Rightarrow> string option \<times> nat option \<times> int" where
  "getSenderIdentifier c this =
     (map_option conv_id (lookupOrCreate c (msg_source this) (sourceUuid this)),
      sourceDevice this, sent_at this)"

text \<open>
  Modelled from the spec: \<open>MessageController.findBySender\<close> and
  \<open>Signal.Data.getMessageBySender\<close> are missing; the spec speaks of an existing message
  with matching sender identity, so both look for the first message with the same sender
  identifier.
\<close>

definition findBySender ::
  "collaborators \<Rightarrow> message list \<Rightarrow> string option \<times> nat option \<times> int \<Rightarrow> message option" where
  "findBySender c ms ident = find (\<lambda>m. getSenderIdentifier c m = ident) ms"

definition getMessageBySender ::
  "collaborators \<Rightarrow> message list \<Rightarrow> message \<Rightarrow> message option" where
  "getMessageBySender c ms this = findBySender c ms (getSenderIdentifier c this)"

subsection \<open>handleDataMessage: the duplicate check\<close>

datatype dropReason =
  DuplicateMessage
  | UpdateWithoutExistingMessage
  | DuplicateTranscript
  | BlockedSender
  | NotInGroupV2
  | NotInGroupV1
  | SenderNotAdmin
  | StoryNotFoundInGroup
  | SenderNotInStorySendState
  | StoryReplyNotAllowed
  | StoryWithoutDistributionList
  | DistributionListDisallowsReplies
  | EmptyMessage

text \<open>
  How the method ends: the payload is dropped and confirmed; or it updates the existing
  outgoing message; or it is left unconfirmed for a later retry; or the message goes to
  the save batcher.
\<close>

datatype outcome =
  Dropped dropReason
  | UpdatedExisting message
  | DeferredForRetry
  | Saved

text \<open>A JavaScript \<open>Set\<close> built from an array keeps the first occurrence of each value.\<close>

definition setAdd :: "string list \<Rightarrow> string \<Rightarrow> string list" where
  "setAdd xs x = (if x \<in> set xs then xs else xs @ [x])"

definition newSet :: "string list \<Rightarrow> string list" where
  "newSet xs = fold (\<lambda>x acc. setAdd acc x) xs []"

text \<open>A non-empty string is truthy.\<close>

definition truthy :: "string option \<Rightarrow> bool" where
  "truthy s = (s \<noteq> None \<and> s \<noteq> Some [])"

text \<open>
  One step of the loop over \<open>unidentifiedStatus\<close>, lines 2213-2254, on the pair of the
  send states and the set of unidentified deliveries.
\<close>

definition mergeStatus ::
  "helpers \<Rightarrow> collaborators \<Rightarrow> int \<Rightarrow> unidentifiedDeliveryStatus
     \<Rightarrow> (string \<rightharpoonup> sendState) \<times> string list \<Rightarrow> (string \<rightharpoonup> sendState) \<times> string list" where
  "mergeStatus h c updatedAtTime st acc =
     (let (sendStates, unidentifiedDeliveriesSet) = acc;
          identifier = (if truthy (destinationUuid st) then destinationUuid st
                        else destination st)
      in if \<not> truthy identifier then acc
         else case maybeMergeContacts c (destinationUuid st)
                     (if truthy (destination st) then destination st else None) of
                None \<Rightarrow> acc
              | Some destinationConversation \<Rightarrow>
                  (sendStates(conv_id destinationConversation \<mapsto>
                     (case sendStates (conv_id destinationConversation) of
                        Some previousSendState \<Rightarrow>
                          sendStateReducer h previousSendState
                            \<lparr>actionType = Action_Sent, actionUpdatedAt = updatedAtTime\<rparr>
                      | None \<Rightarrow>
                          \<lparr>status = Status_Sent, updatedAt = Some updatedAtTime,
                           isAllowedToReplyToStory = None\<rparr>)),
                   if unidentified st then setAdd unidentifiedDeliveriesSet (the identifier)
                   else unidentifiedDeliveriesSet))"

text \<open>
  The update of an existing outgoing message from a sync transcript, lines 2196-2265.
\<close>

definition mergeTranscript ::
  "helpers \<Rightarrow> collaborators \<Rightarrow> int \<Rightarrow> sentEventData \<Rightarrow> message \<Rightarrow> message" where
  "mergeTranscript h c now data toUpdate =
     (let unidentifiedStatusList =
            (case unidentifiedStatus data of None \<Rightarrow> [] | Some sts \<Rightarrow> sts);
          updatedAtTime = (case sentTimestamp data of Some t \<Rightarrow> t | None \<Rightarrow> now);
          (sendStates, unidentifiedDeliveriesSet) =
            fold (mergeStatus h c updatedAtTime) unidentifiedStatusList
              (sendStatesOrEmpty toUpdate,
               newSet (case unidentifiedDeliveries toUpdate of None \<Rightarrow> [] | Some us \<Rightarrow> us))
      in toUpdate\<lparr> sendStateByConversationId := Some sendStates,
                    unidentifiedDeliveries := Some unidentifiedDeliveriesSet \<rparr>)"

text \<open>The message the duplicate check finds, lines 2163-2175.\<close>

definition existingMessageFor :: "collaborators \<Rightarrow> stores \<Rightarrow> message \<Rightarrow> message option" where
  "existingMessageFor c st this =
     (case findBySender c (messageController st) (getSenderIdentifier c this) of
        Some inMemoryMessage \<Rightarrow> Some inMemoryMessage
      | None \<Rightarrow> getMessageBySender c (database st) this)"

text \<open>
  The duplicate check, lines 2162-2283. \<open>None\<close> when the payload is neither a duplicate
  nor a transcript for an existing message, and processing goes on.
\<close>

definition checkDuplicate ::
  "helpers \<Rightarrow> collaborators \<Rightarrow> stores \<Rightarrow> int \<Rightarrow> sentEventData option \<Rightarrow> message
     \<Rightarrow> (outcome \<times> effect list) option" where
  "checkDuplicate h c st now data this =
     (let existingMessage = existingMessageFor c st this;
          isUpdate = (case data of None \<Rightarrow> False | Some d \<Rightarrow> isRecipientUpdate d);
          isDuplicateMessage =
            (case existingMessage of
               None \<Rightarrow> False
             | Some existing \<Rightarrow>
                 msg_type this = Incoming
                 \<or> (msg_type this = Story
                     \<and> storyDistributionListId existing = storyDistributionListId this))
      in if isDuplicateMessage then Some (Dropped DuplicateMessage, [Confirm])
         else if msg_type this = Outgoing
         then (case existingMessage of
                 Some existing \<Rightarrow>
                   (if isUpdate
                    then (let merged = mergeTranscript h c now (the data) existing
                          in Some (UpdatedExisting merged,
                                   [RegisterMessage existing, SaveMessage merged, Confirm]))
                    else Some (Dropped DuplicateTranscript, [Confirm]))
               | None \<Rightarrow>
                   (if isUpdate then Some (Dropped UpdateWithoutExistingMessage, [Confirm])
                    else None))
         else None)"

subsection \<open>handleDataMessage: group changes and the gates on the sender\<close>

text \<open>
  The GroupV2 block, lines 2287-2350: a migration, or a repair followed by an update when
  the message carries a newer revision. A failing update is rethrown.
\<close>

definition processGroupV2 ::
  "collaborators \<Rightarrow> processedDataMessage \<Rightarrow> conversation
     \<Rightarrow> error + (conversation \<times> effect list)" where
  "processGroupV2 c initialMessage conv =
     (case groupV2 initialMessage of
        None \<Rightarrow> Inr (conv, [])
      | Some g \<Rightarrow>
          (if isGroupV1 conv
           then Inr (respondToGroupV2Migration c conv g, [RespondToGroupV2Migration])
           else if truthy (gv2_masterKey g) \<and> truthy (gv2_secretParams g)
                   \<and> truthy (gv2_publicParams g)
           then
             (let repaired = maybeRepairGroupV2 c conv g;
                  isV2GroupUpdate =
                    (case gv2_revision g of
                       None \<Rightarrow> False
                     | Some revision \<Rightarrow>
                         (case conv_revision repaired of
                            None \<Rightarrow> True
                          | Some existingRevision \<Rightarrow> revision > existingRevision))
              in if isV2GroupUpdate
                 then (case maybeUpdateGroup c repaired g of
                         Inl e \<Rightarrow> Inl e
                       | Inr updated \<Rightarrow> Inr (updated, [MaybeRepairGroupV2, MaybeUpdateGroup]))
                 else Inr (repaired, [MaybeRepairGroupV2]))
           else Inr (conv, [])))"

text \<open>\<open>isBlocked\<close>, lines 2364-2366.\<close>

definition senderIsBlocked :: "collaborators \<Rightarrow> message \<Rightarrow> bool" where
  "senderIsBlocked c this =
     ((truthy (msg_source this) \<and> isBlocked c (the (msg_source this)))
      \<or> (truthy (sourceUuid this) \<and> isUuidBlocked c (the (sourceUuid this))))"

text \<open>How a gate ends: the payload passes, is dropped, is left for a retry, or an error is thrown.\<close>

datatype gate = Pass | Drop dropReason | Defer | Throw error

text \<open>
  The gates of lines 2363-2421, on the conversation as the group block left it: blocked
  sender, GroupV2 membership, GroupV1 membership, announcement-only group. The admin
  check looks the sender's conversation up and throws without one.
\<close>

definition gateSender ::
  "collaborators \<Rightarrow> processedDataMessage \<Rightarrow> conversation \<Rightarrow> message \<Rightarrow> gate" where
  "gateSender c initialMessage conv this =
     (let sender = lookupOrCreate c (msg_source this) (sourceUuid this);
          hasGroupV2Prop = (groupV2 initialMessage \<noteq> None);
          areWeMember = (\<not> conv_left conv \<and> hasMember conv (ourACI c))
      in if senderIsBlocked c this then Drop BlockedSender
         else if msg_type this = Incoming \<and> \<not> isDirectConversation conv \<and> hasGroupV2Prop
                 \<and> (\<not> areWeMember
                     \<or> (truthy (sourceUuid this)
                         \<and> \<not> hasMember conv (the (sourceUuid this))))
         then Drop NotInGroupV2
         else if msg_type this = Incoming \<and> \<not> isDirectConversation conv \<and> \<not> hasGroupV2Prop
                 \<and> conv_hasMembers conv \<and> \<not> areWeMember
         then Drop NotInGroupV1
         else if announcementsOnly conv
         then (case sender of
                 None \<Rightarrow> Throw (Thrown ''UUID.checkedLookup'')
               | Some s \<Rightarrow> (if \<not> isAdmin conv (conv_id s) then Drop SenderNotAdmin else Pass))
         else Pass)"

subsection \<open>handleDataMessage: story replies\<close>

text \<open>
  The gates on a message with a story context, lines 2457-2532. A reply in a 1:1
  conversation that finds no story is left for a later retry, without confirmation.
  With a story, the sender's conversation is read (\<open>sender.id\<close>), which throws without one.
\<close>

definition gateStory ::
  "world \<Rightarrow> processedDataMessage \<Rightarrow> conversation \<Rightarrow> conversation option \<Rightarrow> message option
     \<Rightarrow> gate" where
  "gateStory w initialMessage conv sender story =
     (case story of
        None \<Rightarrow>
          (if hasStoryContext initialMessage
           then (if \<not> isDirectConversation conv then Drop StoryNotFoundInGroup else Defer)
           else Pass)
      | Some storyQuoteMessage \<Rightarrow>
          (case sender of
             None \<Rightarrow> Throw (Thrown ''sender.id'')
           | Some s \<Rightarrow>
               (let sendState = sendStatesOrEmpty storyQuoteMessage (conv_id s);
                    storyQuoteIsFromSelf = (sourceUuid storyQuoteMessage = Some (ourUuid w))
                in if storyQuoteIsFromSelf \<and> sendState = None
                   then Drop SenderNotInStorySendState
                   else if storyQuoteIsFromSelf
                           \<and> isAllowedToReplyToStory (the sendState) = Some False
                           \<and> isDirectConversation conv
                   then Drop StoryReplyNotAllowed
                   else if truthy (storyDistributionListId storyQuoteMessage)
                   then (case getStoryDistributionWithMembers w
                                (the (storyDistributionListId storyQuoteMessage)) of
                           None \<Rightarrow> Drop StoryWithoutDistributionList
                         | Some storyDistribution \<Rightarrow>
                             (if \<not> allowsReplies storyDistribution
                              then Drop DistributionListDisallowsReplies
                              else Pass))
                   else Pass)))"

subsection \<open>handleDataMessage: populating the message\<close>

text \<open>
  The \<open>message.set\<close> call of lines 2574-2599, with the filter on link previews of lines
  2551-2565. The attributes come from the upgraded data message, the gift badge from the
  initial message, and the errors are reset.
\<close>

definition populate ::
  "helpers \<Rightarrow> arrival \<Rightarrow> processedDataMessage \<Rightarrow> conversation \<Rightarrow> string \<Rightarrow> message
     \<Rightarrow> message" where
  "populate h a initialMessage conv messageId this =
     (let d = dataMessage a;
          incomingPreview = (case preview d of None \<Rightarrow> [] | Some ps \<Rightarrow> ps);
          keptPreview =
            filter (\<lambda>item. (truthy (image item) \<or> truthy (title item))
                            \<and> (isStory this
                                \<or> linkPreviewAllowed h
                                     (case body d of None \<Rightarrow> [] | Some b \<Rightarrow> b) (url item)))
              incomingPreview
      in this\<lparr> msg_id := Some messageId,
               attachments := attachments d,
               body := body d,
               bodyRanges := bodyRanges d,
               contact := contact d,
               conversationId := conv_id conv,
               decrypted_at := Some (nowDecrypted a),
               errors := Some [],
               flags := flags d,
               giftBadge := dm_giftBadge initialMessage,
               isViewOnce := isViewOnce d,
               preview := Some keptPreview,
               payment := payment d,
               quote := quote d,
               sticker := sticker d,
               storyId := storyId d \<rparr>)"

text \<open>
  The timers of a message that has passed the emptiness gate, lines 2632-2654: a reply to
  a group story takes the timer of the story, and a payload with a non-zero timer that
  is no timer update sets the timer of the message, and for a story its start.
\<close>

definition inheritStoryTimer :: "arrival \<Rightarrow> conversation \<Rightarrow> message \<Rightarrow> message" where
  "inheritStoryTimer a conv message =
     (case storyQuote a of
        Some sq \<Rightarrow>
          (if isGroup conv \<and> truthy (storyId (dataMessage a))
           then message\<lparr> expireTimer := expireTimer sq,
                          expirationStartTimestamp := expirationStartTimestamp sq \<rparr>
           else message)
      | None \<Rightarrow> message)"

definition setExpireTimer :: "helpers \<Rightarrow> message \<Rightarrow> message \<Rightarrow> message" where
  "setExpireTimer h d message =
     (if expireTimer d \<noteq> None \<and> expireTimer d \<noteq> Some 0 \<and> \<not> isExpirationTimerUpdate h d
      then (if isStory message
            then message\<lparr> expireTimer := expireTimer d,
                           expirationStartTimestamp := Some (msg_timestamp d) \<rparr>
            else message\<lparr> expireTimer := expireTimer d \<rparr>)
      else message)"

text \<open>
  The expiration timer update of lines 2656-2703, for a message without GroupV2 context
  that is no story: the attribute \<open>expirationTimerUpdate\<close>, and the calls on the
  conversation.
\<close>

definition noteTimerUpdate ::
  "helpers \<Rightarrow> processedDataMessage \<Rightarrow> message \<Rightarrow> message" where
  "noteTimerUpdate h initialMessage message =
     (if groupV2 initialMessage = None \<and> \<not> isStory message
         \<and> isExpirationTimerUpdate h message
      then message\<lparr> expirationTimerUpdate := Some
             \<lparr> etu_source = msg_source message,
               etu_sourceUuid = sourceUuid message,
               etu_expireTimer = dm_expireTimer initialMessage \<rparr> \<rparr>
      else message)"

definition timerEffects ::
  "helpers \<Rightarrow> processedDataMessage \<Rightarrow> conversation \<Rightarrow> message \<Rightarrow> message \<Rightarrow> effect list" where
  "timerEffects h initialMessage conv d message =
     (if groupV2 initialMessage = None \<and> \<not> isStory message
      then (if isExpirationTimerUpdate h message \<and> conv_expireTimer conv \<noteq> expireTimer d
            then [ConversationSetExpireTimer (expireTimer d)] else [])
           @ (if expireTimer d \<noteq> None \<and> expireTimer d \<noteq> Some 0
              then [UpdateExpirationTimer (expireTimer d)]
              else if \<not> isGroupUpdate h message \<and> \<not> isEndSession h message
              then [UpdateExpirationTimer None]
              else [])
      else [])"

text \<open>The profile key of lines 2705-2723.\<close>

definition profileKeyEffects ::
  "world \<Rightarrow> collaborators \<Rightarrow> processedDataMessage \<Rightarrow> message \<Rightarrow> effect list" where
  "profileKeyEffects w c initialMessage message =
     (if truthy (profileKey initialMessage)
      then (if msg_source message = ourNumber c \<or> sourceUuid message = Some (ourUuid w)
            then [SetProfileSharing]
            else [SetProfileKey])
      else [])"

text \<open>
  View-once messages, lines 2725-2741: an outgoing one is erased, and so is an incoming
  one that is not valid.
\<close>

definition eraseViewOnce :: "helpers \<Rightarrow> world \<Rightarrow> message \<Rightarrow> message \<times> effect list" where
  "eraseViewOnce h w message =
     (case (if isTapToView h message \<and> msg_type message = Outgoing
            then eraseContents w (\<lambda>m. m) True message
            else (message, [])) of
        (message4, effsOutgoing) \<Rightarrow>
          (case (if msg_type message = Incoming \<and> isTapToView h message4
                    \<and> \<not> isValidTapToView h message4
                 then eraseContents w (\<lambda>m. m) True (message4\<lparr>isTapToViewInvalid := True\<rparr>)
                 else (message4, [])) of
             (message5, effsInvalid) \<Rightarrow> (message5, effsOutgoing @ effsInvalid)))"

text \<open>
  What follows the emptiness gate for a supported message, lines 2624-2741: the
  conversation becomes active, then the timers, the profile key and view-once messages.
\<close>

definition applyTimersAndProfile ::
  "helpers \<Rightarrow> world \<Rightarrow> collaborators \<Rightarrow> arrival \<Rightarrow> processedDataMessage \<Rightarrow> conversation
     \<Rightarrow> message \<Rightarrow> message \<times> effect list" where
  "applyTimersAndProfile h w c a initialMessage conv message =
     (case eraseViewOnce h w
             (noteTimerUpdate h initialMessage
                (setExpireTimer h (dataMessage a) (inheritStoryTimer a conv message))) of
        (message5, effsErase) \<Rightarrow>
          (message5,
           [ConversationSetActive (isStory message)]
           @ timerEffects h initialMessage conv (dataMessage a)
               (noteTimerUpdate h initialMessage
                  (setExpireTimer h (dataMessage a) (inheritStoryTimer a conv message)))
           @ profileKeyEffects w c initialMessage message
           @ effsErase))"

text \<open>
  Registering and saving, lines 2744-2840: the last-message update for a payment event,
  the registration in the identity index, the badge fetch of a gift badge, the attachment
  downloads, the first run of \<open>modifyTargetMessage\<close> and then \<open>saveAndNotify\<close>, whose
  effects come last.
\<close>

definition registerAndSave ::
  "helpers \<Rightarrow> world \<Rightarrow> arrival \<Rightarrow> conversation \<Rightarrow> model
     \<Rightarrow> error + (model \<times> effect list)" where
  "registerAndSave h w a conv this =
     (let message = attributes this;
          isGroupStoryReply = (isGroup conv \<and> truthy (storyId (dataMessage a)));
          effsLast =
            (if \<not> isStory message \<and> \<not> isGroupStoryReply
                \<and> (conv_timestamp conv = None \<or> conv_timestamp conv = Some 0
                    \<or> sent_at message > the (conv_timestamp conv))
                \<and> messageHasPaymentEvent h message
             then [ConversationSetLastMessage] else []);
          effsRegister =
            [RegisterMessage message, IncrementMessageCount]
            @ (if msg_type message = Outgoing then [SetArchived False] else [])
            @ [UpdateConversation]
      in case (if giftBadge message \<noteq> None then giftBadgeFailure a else None) of
           Some e \<Rightarrow> Inl e
         | None \<Rightarrow>
             (let effsBadge = (if giftBadge message \<noteq> None then [UpdateBadges] else []);
                  effsDownload =
                    (if hasAttachmentDownloads h message
                        \<and> (getAccepted conv \<or> isOutgoing message)
                        \<and> \<not> holdOffDownload h message
                     then [QueueAttachmentDownloads] else [])
              in case modifyTargetMessage h w (firstRunClock a) (firstRunPending a) conv True
                        this of
                   Inl e \<Rightarrow> Inl e
                 | Inr (this1, effsFirstRun) \<Rightarrow>
                     (case saveAndNotify h w (secondRunClock a) (secondRunPending a) conv
                             this1 of
                        Inl e \<Rightarrow> Inl e
                      | Inr (this2, effsSave) \<Rightarrow>
                          Inr (this2,
                               effsLast @ effsRegister @ effsBadge @ effsDownload
                               @ effsFirstRun @ effsSave))))"

text \<open>
  Lines 2534-2742 for a payload that has passed the gates: the message is populated; an
  unsupported message is erased; a supported one goes through the emptiness gate, and, if
  it is not empty, through the timers. \<open>Inl\<close> holds the effects of a dropped payload.
\<close>

definition populateAndGate ::
  "helpers \<Rightarrow> world \<Rightarrow> collaborators \<Rightarrow> arrival \<Rightarrow> processedDataMessage \<Rightarrow> conversation
     \<Rightarrow> string \<Rightarrow> message \<Rightarrow> effect list + (message \<times> effect list)" where
  "populateAndGate h w c a initialMessage conv messageId this =
     (let populated = populate h a initialMessage conv messageId this;
          effsHydrate = (if storyQuote a \<noteq> None then [HydrateStoryContext] else []);
          isSupported = \<not> isUnsupportedMessage h populated
      in if \<not> isSupported
         then (let (erased, effs) = eraseContents w (\<lambda>m. m) True populated
               in Inr (erased, [UpgradeMessageSchema] @ effsHydrate @ effs))
         else if isEmpty h populated
         then Inl ([UpgradeMessageSchema] @ effsHydrate @ [Confirm])
         else (let (message, effs) =
                     applyTimersAndProfile h w c a initialMessage conv populated
               in Inr (message, [UpgradeMessageSchema] @ effsHydrate @ effs)))"

subsection \<open>handleDataMessage\<close>

text \<open>\<open>message.get('id') || UUID.generate().toString()\<close>, line 2423.\<close>

definition messageIdFor :: "collaborators \<Rightarrow> message \<Rightarrow> string" where
  "messageIdFor c message =
     (if truthy (msg_id message) then the (msg_id message) else generateUuid c)"

text \<open>
  \<open>handleDataMessage(initialMessage, confirm, { data })\<close>, lines 2132-2847, for the
  conversation the code asserts to exist. The result is how the method ends, the model,
  and the effects in program order; \<open>Inl\<close> is an error thrown out of the method.
\<close>

definition handleDataMessage ::
  "helpers \<Rightarrow> world \<Rightarrow> collaborators \<Rightarrow> stores \<Rightarrow> arrival \<Rightarrow> conversation
     \<Rightarrow> processedDataMessage \<Rightarrow> sentEventData option \<Rightarrow> model
     \<Rightarrow> error + (outcome \<times> model \<times> effect list)" where
  "handleDataMessage h w c st a conversation initialMessage data this =
     (let message = attributes this;
          effsContact = (if fromContactFound a then [SetRegistered] else [])
      in case checkDuplicate h c st (nowMerge a) data message of
           Some (out, effs) \<Rightarrow> Inr (out, this, effsContact @ effs)
         | None \<Rightarrow>
             (case processGroupV2 c initialMessage conversation of
                Inl e \<Rightarrow> Inl e
              | Inr (conv, effsGroup) \<Rightarrow>
                  (case gateSender c initialMessage conv message of
                     Throw e \<Rightarrow> Inl e
                   | Defer \<Rightarrow> Inr (DeferredForRetry, this, effsContact @ effsGroup)
                   | Drop reason \<Rightarrow>
                       Inr (Dropped reason, this, effsContact @ effsGroup @ [Confirm])
                   | Pass \<Rightarrow>
                       (let messageId = messageIdFor c message;
                            effsReceipt =
                              (if msg_type message = Incoming
                                  \<and> unidentifiedDeliveryReceived message
                                  \<and> \<not> hasErrors message \<and> getAccepted conv
                               then [QueueDeliveryReceipt] else []);
                            effsBefore = effsContact @ effsGroup @ effsReceipt
                                         @ [CopyFromQuotedMessage, FindStoryMessage]
                        in case copiedQuote a of
                             Inl e \<Rightarrow> Inl e
                           | Inr copied \<Rightarrow>
                               (case gateStory w initialMessage conv
                                       (lookupOrCreate c (msg_source message)
                                          (sourceUuid message))
                                       (storyQuote a) of
                                  Throw e \<Rightarrow> Inl e
                                | Defer \<Rightarrow> Inr (DeferredForRetry, this, effsBefore)
                                | Drop reason \<Rightarrow>
                                    Inr (Dropped reason, this, effsBefore @ [Confirm])
                                | Pass \<Rightarrow>
                                    (case populateAndGate h w c a initialMessage conv
                                            messageId message of
                                       Inl effs \<Rightarrow>
                                         Inr (Dropped EmptyMessage,
                                              this\<lparr>attributes :=
                                                populate h a initialMessage conv messageId
                                                  message\<rparr>,
                                              effsBefore @ effs)
                                     | Inr (message', effs) \<Rightarrow>
                                         (case registerAndSave h w a conv
                                                 (this\<lparr>attributes := message'\<rparr>) of
                                            Inl e \<Rightarrow> Inl e
                                          | Inr (this', effs') \<Rightarrow>
                                              Inr (Saved, this',
                                                   effsBefore @ effs @ effs'))))))))"

subsection \<open>Concrete inputs\<close>

text \<open>
  Concrete attribute bags, helpers and lookups, used where a statement below is
  evaluated at an explicit input.
\<close>

definition blankMessage :: message where
  "blankMessage =
     \<lparr> msg_id = Some ''m1'', msg_type = Incoming, conversationId = ''c1'',
       msg_source = None, sourceUuid = Some ''alice'', sourceDevice = Some 1,
       sent_at = 1000, received_at = 1, msg_timestamp = 1000,
       body = None, bodyRanges = None, attachments = None, contact = None,
       preview = None, quote = None, sticker = None, editHistory = None,
       payment = None, giftBadge = None, flags = None,
       isViewOnce = False, isTapToViewInvalid = False, isErased = False,
       deletedForEveryone = False, reactions = None, errors = None,
       sendStateByConversationId = None, unidentifiedDeliveries = None,
       unidentifiedDeliveryReceived = False, readStatus = None, seenStatus = None,
       expireTimer = None, expirationStartTimestamp = None, expirationTimerUpdate = None,
       storyId = None, storyDistributionListId = None, storyReaction = None,
       decrypted_at = None \<rparr>"

text \<open>
  An entry is still being sent while some conversation in \<open>isSentByConversationId\<close> is
  marked false. The \<open>addOutgoingReaction\<close> of the concrete helpers drops the entries still
  being sent and appends the new one.
\<close>

definition outgoingPending :: "messageReaction \<Rightarrow> bool" where
  "outgoingPending re =
     (case isSentByConversationId re of
        None \<Rightarrow> False
      | Some sent \<Rightarrow> \<exists>kv \<in> set sent. \<not> snd kv)"

definition plainHelpers :: helpers where
  "plainHelpers =
     \<lparr> sendStateReducer = (\<lambda>s a. s),
       addOutgoingReaction = (\<lambda>rs r. filter (\<lambda>re. \<not> outgoingPending re) rs @ [r]),
       getMessagePropStatus = (\<lambda>m c. None),
       markViewed = (\<lambda>m. m\<lparr>readStatus := Some Viewed, seenStatus := Some Seen\<rparr>),
       getSourceUuid = sourceUuid,
       deleteForEveryone = (\<lambda>this del shouldPersist. this),
       linkPreviewAllowed = (\<lambda>b u. True),
       hasAttachmentDownloads = (\<lambda>m. False),
       holdOffDownload = (\<lambda>m. False),
       isCallHistory = (\<lambda>m. False),
       isChatSessionRefreshed = (\<lambda>m. False),
       isDeliveryIssue = (\<lambda>m. False),
       isGiftBadge = (\<lambda>m. giftBadge m \<noteq> None),
       isGroupUpdate = (\<lambda>m. False),
       isGroupV2Change = (\<lambda>m. False),
       isEndSession = (\<lambda>m. flags m = Some 1),
       isExpirationTimerUpdate = (\<lambda>m. flags m = Some 2),
       isVerifiedChange = (\<lambda>m. False),
       isUnsupportedMessage = (\<lambda>m. False),
       isTapToView = (\<lambda>m. \<not> deletedForEveryone m \<and> isViewOnce m),
       isKeyChange = (\<lambda>m. False),
       isProfileChange = (\<lambda>m. False),
       isUniversalTimerNotification = (\<lambda>m. False),
       isConversationMerge = (\<lambda>m. False),
       messageHasPaymentEvent = (\<lambda>m. payment m \<noteq> None),
       isImageTypeSupported = (\<lambda>t. t = ''image/jpeg''),
       isVideoTypeSupported = (\<lambda>t. t = ''video/mp4'') \<rparr>"

definition directConversation :: conversation where
  "directConversation =
     \<lparr> conv_id = ''c1'', isDirectConversation = True, isGroup = False, isGroupV1 = False,
       isMe = False, conv_expireTimer = None, conv_active_at = None, conv_timestamp = None,
       conv_revision = None, conv_left = False, conv_hasMembers = False,
       announcementsOnly = False, getAccepted = True, canBeUnarchived = False,
       getMemberConversationIds = [''alice''], hasMember = (\<lambda>u. True),
       isAdmin = (\<lambda>u. False) \<rparr>"

definition smallWorld :: world where
  "smallWorld =
     \<lparr> conversationById =
         (\<lambda>i. if i = ''c1'' then Some directConversation
              else if i = ''alice'' \<or> i = ''bob'' then Some (directConversation\<lparr>conv_id := i\<rparr>)
              else None),
       ourConversationId = Some ''me'',
       ourUuid = ''me-uuid'',
       shouldReplyNotifyUser = (\<lambda>m. False),
       areWePrimaryDevice = True,
       getStoryDistributionWithMembers = (\<lambda>i. None) \<rparr>"

definition thumbsUp :: messageReaction where
  "thumbsUp =
     \<lparr> emoji = Some ''+1'', fromId = ''alice'', targetAuthorUuid = ''me-uuid'',
       targetTimestamp = 1000, timestamp = 2000, isSentByConversationId = None \<rparr>"


definition clockAt :: "int \<Rightarrow> passClock" where
  "clockAt t =
     \<lparr> nowMarkReadAt = t, nowExpirationStart = t, nowPendingMarkRead = t,
       nowStoryMarkReadAt = t, nowStoryPendingMarkRead = t \<rparr>"

definition noPending :: pendingModifiers where
  "noPending =
     \<lparr> receiptsFor = [], readSyncFor = None, viewSyncsFor = [], viewOnceOpenSyncFor = False,
       reactionsFor = [], deletesFor = [], editsFor = 0 \<rparr>"

text \<open>
  An outgoing message that failed for alice and was sent to bob, and helpers whose reducer
  turns Failed into Pending on a manual retry and changes nothing else.
\<close>

definition retryMessage :: message where
  "retryMessage =
     blankMessage\<lparr> msg_type := Outgoing,
                    sendStateByConversationId := Some
                      [''alice'' \<mapsto> \<lparr>status = Status_Failed, updatedAt = Some 1000,
                                     isAllowedToReplyToStory = None\<rparr>,
                       ''bob'' \<mapsto> \<lparr>status = Status_Sent, updatedAt = Some 1000,
                                   isAllowedToReplyToStory = None\<rparr>] \<rparr>"

definition retryingHelpers :: helpers where
  "retryingHelpers =
     plainHelpers\<lparr> sendStateReducer :=
       (\<lambda>s a. if actionType a = ManuallyRetried \<and> status s = Status_Failed
              then s\<lparr>status := Status_Pending, updatedAt := Some (actionUpdatedAt a)\<rparr>
              else s) \<rparr>"

text \<open>
  Collaborators that know alice and bob and block nobody; a payload without group,
  story or quote; and what is obtained while handling it.
\<close>

definition plainCollaborators :: collaborators where
  "plainCollaborators =
     \<lparr> respondToGroupV2Migration = (\<lambda>conv g. conv\<lparr>isGroupV1 := False\<rparr>),
       maybeRepairGroupV2 = (\<lambda>conv g. conv),
       maybeUpdateGroup = (\<lambda>conv g. Inr (conv\<lparr>conv_revision := gv2_revision g\<rparr>)),
       lookupOrCreate = (\<lambda>e164 uuid. case uuid of
                           None \<Rightarrow> None
                         | Some u \<Rightarrow> Some (directConversation\<lparr>conv_id := u\<rparr>)),
       maybeMergeContacts = (\<lambda>aci e164. case aci of
                               None \<Rightarrow> None
                             | Some u \<Rightarrow> Some (directConversation\<lparr>conv_id := u\<rparr>)),
       isBlocked = (\<lambda>n. False),
       isUuidBlocked = (\<lambda>u. False),
       ourACI = ''me-uuid'',
       ourNumber = None,
       generateUuid = ''generated'' \<rparr>"

definition plainPayload :: processedDataMessage where
  "plainPayload =
     \<lparr> groupV2 = None, hasStoryContext = False, dm_giftBadge = None, dm_expireTimer = None,
       profileKey = None, dm_timestamp = 1000 \<rparr>"

definition arrivalOf :: "message \<Rightarrow> arrival" where
  "arrivalOf d =
     \<lparr> fromContactFound = False, copiedQuote = Inr None, storyQuote = None, dataMessage = d,
       giftBadgeFailure = None, nowDecrypted = 2000, nowMerge = 2000,
       firstRunClock = clockAt 2000, firstRunPending = noPending,
       secondRunClock = clockAt 2100, secondRunPending = noPending \<rparr>"

definition emptyStores :: stores where
  "emptyStores = \<lparr> messageController = [], database = [] \<rparr>"

subsection \<open>Auxiliary notions for the statements\<close>

text \<open>\<open>this.get('reactions') || []\<close>.\<close>

definition reactionsOrEmpty :: "message \<Rightarrow> messageReaction list" where
  "reactionsOrEmpty m = (case reactions m of None \<Rightarrow> [] | Some rs \<Rightarrow> rs)"

text \<open>
  What \<open>handleReaction\<close> does to the receiver of a reaction to a non-story message once
  its guards have passed: lines 3281-3291 from this device, lines 3293-3365 otherwise.
\<close>

definition reactionStep ::
  "helpers \<Rightarrow> conversation \<Rightarrow> reactionAttributes \<Rightarrow> message \<Rightarrow> message" where
  "reactionStep h conv reaction this =
     (if reactionSource reaction = FromThisDevice
      then this\<lparr>reactions := Some (addOutgoingReaction h (reactionsOrEmpty this)
                                    (newReactionOf conv reaction))\<rparr>
      else fst (reactionFromElsewhere reaction (newReactionOf conv reaction) this))"

text \<open>A model instance with no delete in flight and no pending read cascade.\<close>

definition freshModel :: "message \<Rightarrow> model" where
  "freshModel m = \<lparr> attributes = m, deletingForEveryone = False, pendingMarkRead = None \<rparr>"


text \<open>\<open>readSyncs\<close>, the array around the one read sync (line 2962).\<close>

definition readSyncsOf :: "pendingModifiers \<Rightarrow> readSync list" where
  "readSyncsOf pending = (case readSyncFor pending of None \<Rightarrow> [] | Some r \<Rightarrow> [r])"

text \<open>What a run of \<open>handleDataMessage\<close> ended with, and the effects it had.\<close>

definition outcomeOf :: "error + (outcome \<times> model \<times> effect list) \<Rightarrow> outcome option" where
  "outcomeOf r = (case r of Inl e \<Rightarrow> None | Inr (out, this, effs) \<Rightarrow> Some out)"

definition effectsOf :: "error + (outcome \<times> model \<times> effect list) \<Rightarrow> effect list" where
  "effectsOf r = (case r of Inl e \<Rightarrow> [] | Inr (out, this, effs) \<Rightarrow> effs)"

text \<open>
  The stores after a first payload with the body \<open>hi\<close> from alice has been handled, from
  empty stores.
\<close>

definition greetingArrival :: arrival where
  "greetingArrival = arrivalOf (blankMessage\<lparr>body := Some ''hi''\<rparr>)"





text \<open>
  Collaborators that block alice; a group conversation at revision 3; and a payload from
  alice with a GroupV2 context at revision 5.
\<close>

definition blockingCollaborators :: collaborators where
  "blockingCollaborators = plainCollaborators\<lparr>isUuidBlocked := (\<lambda>u. u = ''alice'')\<rparr>"

definition groupConversation :: conversation where
  "groupConversation =
     directConversation\<lparr> isDirectConversation := False, isGroup := True,
                          conv_revision := Some 3 \<rparr>"

definition groupPayload :: processedDataMessage where
  "groupPayload =
     plainPayload\<lparr> groupV2 := Some
       \<lparr> gv2_revision = Some 5, gv2_groupChange = None, gv2_masterKey = Some ''k'',
         gv2_secretParams = Some ''s'', gv2_publicParams = Some ''p'' \<rparr> \<rparr>"

text \<open>The message as \<open>handleDataMessage\<close> populates it (lines 2574-2599).\<close>

definition populatedFor ::
  "helpers \<Rightarrow> collaborators \<Rightarrow> arrival \<Rightarrow> processedDataMessage \<Rightarrow> conversation \<Rightarrow> model
     \<Rightarrow> message" where
  "populatedFor h c a initialMessage conv this =
     populate h a initialMessage conv (messageIdFor c (attributes this)) (attributes this)"

text \<open>The effects of a payload up to the emptiness gate, for a conversation after the group block.\<close>

definition effectsBeforeGate ::
  "arrival \<Rightarrow> conversation \<Rightarrow> effect list \<Rightarrow> model \<Rightarrow> effect list" where
  "effectsBeforeGate a conv effsGroup this =
     (if fromContactFound a then [SetRegistered] else [])
     @ effsGroup
     @ (if msg_type (attributes this) = Incoming
           \<and> unidentifiedDeliveryReceived (attributes this)
           \<and> \<not> hasErrors (attributes this) \<and> getAccepted conv
        then [QueueDeliveryReceipt] else [])
     @ [CopyFromQuotedMessage, FindStoryMessage, UpgradeMessageSchema]
     @ (if storyQuote a \<noteq> None then [HydrateStoryContext] else [])"

text \<open>A payload that only carries the expiration-timer-update flag and a timer.\<close>

definition timerArrival :: arrival where
  "timerArrival = arrivalOf (blankMessage\<lparr>flags := Some 2, expireTimer := Some 60\<rparr>)"


section \<open>Reactions\<close>

lemma reactionSendOrSave_None:
  "\<exists>effs. reactionSendOrSave conv reaction nr None sp m = Inr effs"
  by (simp add: reactionSendOrSave_def)


lemma fromId_newReactionOf [simp]: "fromId (newReactionOf conv reaction) = fromId reaction"
  by (simp add: newReactionOf_def)







lemma reactionFromElsewhere_other:
  "fst (reactionFromElsewhere reaction nr this) = this\<lparr>reactions := reactions (fst (reactionFromElsewhere reaction nr this))\<rparr>"
  by (simp add: reactionFromElsewhere_def Let_def)


lemma handleReaction_result:
  assumes "handleReaction h w reaction None sp this = Inr (m1, e1)"
  shows "m1 = this \<or> (\<exists>conv. getConversation w this = Some conv
                          \<and> m1 = reactionStep h conv reaction this)"
proof (cases "getConversation w this")
  case None
  then show ?thesis using assms
    by (auto simp add: handleReaction_def split: if_splits)
next
  case (Some conv)
  obtain effs where "reactionSendOrSave conv reaction (newReactionOf conv reaction) None sp
        (reactionStep h conv reaction this) = Inr effs"
    using reactionSendOrSave_None by blast
  then show ?thesis using assms Some
    by (auto simp add: handleReaction_def reactionStep_def reactionsOrEmpty_def Let_def
          split: if_splits prod.splits)
qed

lemma handleReaction_returns:
  assumes "\<not> (hasErrors this \<and> \<not> isIncoming this \<and> ourConversationId w = None)"
  shows "\<exists>m e. handleReaction h w reaction None sp this = Inr (m, e)"
proof (cases "getConversation w this")
  case None
  then show ?thesis using assms by (auto simp add: handleReaction_def)
next
  case (Some conv)
  obtain effs where "reactionSendOrSave conv reaction (newReactionOf conv reaction) None sp
        (reactionStep h conv reaction this) = Inr effs"
    using reactionSendOrSave_None by blast
  then show ?thesis using assms Some
    by (auto simp add: handleReaction_def reactionStep_def reactionsOrEmpty_def Let_def
          split: if_splits prod.splits)
qed




section \<open>The read cascade is never among the effects of the helpers\<close>









section \<open>modifyTargetMessage on an incoming message\<close>

lemma reactionStep_only_reactions:
  "reactionStep h conv reaction this
     = this\<lparr>reactions := reactions (reactionStep h conv reaction this)\<rparr>"
  by (simp add: reactionStep_def reactionFromElsewhere_def Let_def)

lemma handleReaction_only_reactions:
  assumes "handleReaction h w reaction None sp this = Inr (m1, e1)"
  shows "\<exists>rs. m1 = this\<lparr>reactions := rs\<rparr>"
proof -
  from handleReaction_result [OF assms]
  consider "m1 = this" | conv where "m1 = reactionStep h conv reaction this" by blast
  then show ?thesis
  proof cases
    case 1
    then have "m1 = this\<lparr>reactions := reactions this\<rparr>" by simp
    then show ?thesis by blast
  next
    case 2
    then have "m1 = this\<lparr>reactions := reactions (reactionStep h conv reaction this)\<rparr>"
      using reactionStep_only_reactions [of h conv reaction this] by simp
    then show ?thesis by blast
  qed
qed

lemma applyReactions_incoming:
  assumes "msg_type m = Incoming"
  shows "\<exists>rs ch effs. applyReactions h w reactionList m = Inr (m\<lparr>reactions := rs\<rparr>, ch, effs)"
  using assms
proof (induction reactionList arbitrary: m)
  case Nil
  have "applyReactions h w [] m = Inr (m\<lparr>reactions := reactions m\<rparr>, False, [])" by simp
  then show ?case by blast
next
  case (Cons r rest)
  have ns: "\<not> isStory m" using Cons.prems by (simp add: isStory_def)
  have "\<not> (hasErrors m \<and> \<not> isIncoming m \<and> ourConversationId w = None)"
    using Cons.prems by (simp add: isIncoming_def)
  then obtain m1 e1 where first: "handleReaction h w r None False m = Inr (m1, e1)"
    using handleReaction_returns by blast
  then obtain rs1 where m1: "m1 = m\<lparr>reactions := rs1\<rparr>"
    using handleReaction_only_reactions by blast
  then have "msg_type m1 = Incoming" using Cons.prems by simp
  then obtain rs ch effs where "applyReactions h w rest m1 = Inr (m1\<lparr>reactions := rs\<rparr>, ch, effs)"
    using Cons.IH by blast
  then have "applyReactions h w (r # rest) m = Inr (m\<lparr>reactions := rs\<rparr>, True, e1 @ effs)"
    using ns first m1 by simp
  then show ?case by blast
qed

lemma fst_applyDeletes_Cons:
  "fst (applyDeletes h (d # ds) m) = fst (applyDeletes h ds (deleteForEveryone h m d False))"
  by (simp add: Let_def split: prod.splits)

lemma applyDeletes_preserves:
  assumes "\<And>m d. g (deleteForEveryone h m d False) = g m"
  shows "g (fst (applyDeletes h ds m)) = g m"
proof (induction ds arbitrary: m)
  case Nil
  then show ?case by simp
next
  case (Cons d ds)
  then show ?case using assms by (simp only: fst_applyDeletes_Cons)
qed

lemma applyReadAndViewSyncs_type:
  "msg_type (attributes (fst (applyReadAndViewSyncs clock conv fr rs vs this)))
     = msg_type (attributes this)"
  by (simp add: applyReadAndViewSyncs_def Let_def)

lemma cascadeMarkRead_attributes:
  "attributes (fst (cascadeMarkRead w fr this)) = attributes this"
  by (simp add: cascadeMarkRead_def split: option.splits)

lemma applyIncomingBlocks_noViewOnce:
  assumes "\<not> viewOnceOpenSyncFor pending"
    and b: "applyReadAndViewSyncs clock conv isFirstRun (readSyncFor pending)
              (viewSyncsFor pending) this = (this2, ch2, effs2)"
    and c: "cascadeMarkRead w isFirstRun this2 = (this3, effs3)"
  shows "applyIncomingBlocks h w clock pending conv isFirstRun this
           = Inr (this3, ch2, effs2 @ effs3)"
  using assms by (simp add: applyIncomingBlocks_def applyViewOnceOpenSync_def)

lemma applyLaterBlocks_notStory:
  assumes "\<not> isStory (attributes this)"
    and r: "applyReactions h w (reactionsFor pending) (attributes this) = Inr (m6, chR, effsR)"
    and d: "applyDeletes h (deletesFor pending) m6 = (m7, effsD)"
  shows "applyLaterBlocks h w clock pending isFirstRun chB effsB this
           = Inr (this\<lparr>attributes := m7\<rparr>,
                  effsB @ effsR @ effsD
                  @ (if \<not> isFirstRun then replicate (editsFor pending) HandleEditMessage else [])
                  @ (if (chB \<or> chR \<or> deletesFor pending \<noteq> []) \<and> \<not> isFirstRun
                     then [SaveMessage m7] else []))"
  using assms by (simp add: applyLaterBlocks_def)

lemma modifyTargetMessage_incoming:
  assumes incoming: "msg_type (attributes this) = Incoming"
    and noViewOnce: "\<not> viewOnceOpenSyncFor pending"
  shows "\<exists>this' effs rs.
           modifyTargetMessage h w clock pending conv isFirstRun this = Inr (this', effs)
           \<and> attributes this' =
               fst (applyDeletes h (deletesFor pending)
                     ((attributes (fst (applyReadAndViewSyncs clock conv isFirstRun
                          (readSyncFor pending) (viewSyncsFor pending) this)))
                        \<lparr>reactions := rs\<rparr>))
           \<and> pendingMarkRead this' =
               pendingMarkRead (fst (cascadeMarkRead w isFirstRun
                 (fst (applyReadAndViewSyncs clock conv isFirstRun
                          (readSyncFor pending) (viewSyncsFor pending) this))))
           \<and> set (snd (cascadeMarkRead w isFirstRun
                 (fst (applyReadAndViewSyncs clock conv isFirstRun
                          (readSyncFor pending) (viewSyncsFor pending) this)))) \<subseteq> set effs"
proof -
  obtain this2 ch2 effs2 where b: "applyReadAndViewSyncs clock conv isFirstRun
      (readSyncFor pending) (viewSyncsFor pending) this = (this2, ch2, effs2)"
    by (cases "applyReadAndViewSyncs clock conv isFirstRun
      (readSyncFor pending) (viewSyncsFor pending) this") auto
  obtain this3 effs3 where c: "cascadeMarkRead w isFirstRun this2 = (this3, effs3)"
    by (cases "cascadeMarkRead w isFirstRun this2") auto
  have t2: "msg_type (attributes this2) = Incoming"
    using applyReadAndViewSyncs_type [of clock conv isFirstRun "readSyncFor pending"
        "viewSyncsFor pending" this] b incoming by simp
  have a3: "attributes this3 = attributes this2"
    using cascadeMarkRead_attributes [of w isFirstRun this2] c by simp
  then have t3: "msg_type (attributes this3) = Incoming" using t2 by simp
  obtain rs ch effsR where r: "applyReactions h w (reactionsFor pending) (attributes this3)
      = Inr ((attributes this3)\<lparr>reactions := rs\<rparr>, ch, effsR)"
    using applyReactions_incoming [OF t3] by blast
  obtain m7 effsD where d: "applyDeletes h (deletesFor pending) ((attributes this3)\<lparr>reactions := rs\<rparr>)
      = (m7, effsD)"
    by (cases "applyDeletes h (deletesFor pending) ((attributes this3)\<lparr>reactions := rs\<rparr>)") auto
  have ns: "\<not> isStory (attributes this3)" using t3 by (simp add: isStory_def)
  have this_id: "this\<lparr>attributes := attributes this\<rparr> = this" by simp
  have inc: "applyIncomingBlocks h w clock pending conv isFirstRun this
               = Inr (this3, ch2, effs2 @ effs3)"
    by (rule applyIncomingBlocks_noViewOnce [OF noViewOnce b c])
  have later: "applyLaterBlocks h w clock pending isFirstRun ch2 (effs2 @ effs3) this3
           = Inr (this3\<lparr>attributes := m7\<rparr>,
                  (effs2 @ effs3) @ effsR @ effsD
                  @ (if \<not> isFirstRun then replicate (editsFor pending) HandleEditMessage else [])
                  @ (if (ch2 \<or> ch \<or> deletesFor pending \<noteq> []) \<and> \<not> isFirstRun
                     then [SaveMessage m7] else []))"
    by (rule applyLaterBlocks_notStory [OF ns r d])
  have res: "modifyTargetMessage h w clock pending conv isFirstRun this =
          Inr (this3\<lparr>attributes := m7\<rparr>,
                  (effs2 @ effs3) @ effsR @ effsD
                  @ (if \<not> isFirstRun then replicate (editsFor pending) HandleEditMessage else [])
                  @ (if (ch2 \<or> ch \<or> deletesFor pending \<noteq> []) \<and> \<not> isFirstRun
                     then [SaveMessage m7] else []))"
    unfolding modifyTargetMessage_def using incoming
    by (simp only: messageType.distinct if_False if_True simp_thms prod.case this_id inc
          sum.case later)
  have f1: "attributes (this3\<lparr>attributes := m7\<rparr>) =
               fst (applyDeletes h (deletesFor pending)
                     ((attributes (fst (applyReadAndViewSyncs clock conv isFirstRun
                          (readSyncFor pending) (viewSyncsFor pending) this)))
                        \<lparr>reactions := rs\<rparr>))"
    using b d a3 by simp
  have f2: "pendingMarkRead (this3\<lparr>attributes := m7\<rparr>) =
               pendingMarkRead (fst (cascadeMarkRead w isFirstRun
                 (fst (applyReadAndViewSyncs clock conv isFirstRun
                          (readSyncFor pending) (viewSyncsFor pending) this))))"
    using b c by simp
  have f3: "set (snd (cascadeMarkRead w isFirstRun
                 (fst (applyReadAndViewSyncs clock conv isFirstRun
                          (readSyncFor pending) (viewSyncsFor pending) this))))
            \<subseteq> set ((effs2 @ effs3) @ effsR @ effsD
                  @ (if \<not> isFirstRun then replicate (editsFor pending) HandleEditMessage else [])
                  @ (if (ch2 \<or> ch \<or> deletesFor pending \<noteq> []) \<and> \<not> isFirstRun
                     then [SaveMessage m7] else []))"
    using b c by auto
  from res f1 f2 f3 show ?thesis by blast
qed

lemma markReadAtOf_Min:
  "markReadAtOf now readSyncs viewSyncs
     = Min (insert now (readAt ` set readSyncs \<union> viewedAt ` set viewSyncs))"
proof -
  have "fold min (map readAt readSyncs @ map viewedAt viewSyncs) now
          = Min (set (now # map readAt readSyncs @ map viewedAt viewSyncs))"
    by (rule Min.set_eq_fold [symmetric])
  then show ?thesis by (simp add: markReadAtOf_def)
qed

lemma markReadAtOf_le_now: "markReadAtOf now readSyncs viewSyncs \<le> now"
  by (simp add: markReadAtOf_Min)

lemma applyReadAndViewSyncs_present:
  assumes "readSyncFor pending \<noteq> None \<or> viewSyncsFor pending \<noteq> []"
  shows "applyReadAndViewSyncs clock conv isFirstRun (readSyncFor pending) (viewSyncsFor pending) this
    = (this\<lparr> attributes :=
               (if expireTimer (attributes this) \<noteq> None \<and> expireTimer (attributes this) \<noteq> Some 0
                then (attributes this)\<lparr>expirationStartTimestamp := Some
                          (min (case expirationStartTimestamp (attributes this) of
                                  None \<Rightarrow> nowExpirationStart clock
                                | Some e \<Rightarrow> e)
                               (markReadAtOf (nowMarkReadAt clock) (readSyncsOf pending)
                                  (viewSyncsFor pending)))\<rparr>
                else attributes this)
               \<lparr>readStatus := Some (if viewSyncsFor pending \<noteq> [] then Viewed else Read),
                seenStatus := Some Seen\<rparr>,
             pendingMarkRead := Some
               (min (case pendingMarkRead this of
                       None \<Rightarrow> nowPendingMarkRead clock
                     | Some p \<Rightarrow> p)
                    (markReadAtOf (nowMarkReadAt clock) (readSyncsOf pending)
                       (viewSyncsFor pending))) \<rparr>,
       True, [])"
  using assms
  by (auto simp add: applyReadAndViewSyncs_def readSyncsOf_def Let_def split: option.splits)

section \<open>Read and view syncs\<close>

text \<open>
  Claim C3. In a reconciliation pass on an incoming message with at least one read sync
  or view sync, the sync block sets \<open>readStatus\<close> to Viewed when a view sync is present
  and to Read otherwise, and \<open>seenStatus\<close> to Seen. When no view-once open sync is pending
  and \<open>deleteForEveryone\<close> leaves the two attributes alone, the pass returns and these are
  the values the message ends with: a read sync alone does not give Viewed.
\<close>

theorem modifyTargetMessage_read_status:
  assumes incoming: "msg_type (attributes this) = Incoming"
    and syncs: "readSyncFor pending \<noteq> None \<or> viewSyncsFor pending \<noteq> []"
  shows "readStatus (attributes (fst (applyReadAndViewSyncs clock conv isFirstRun
             (readSyncFor pending) (viewSyncsFor pending) this)))
           = Some (if viewSyncsFor pending \<noteq> [] then Viewed else Read)
         \<and> seenStatus (attributes (fst (applyReadAndViewSyncs clock conv isFirstRun
             (readSyncFor pending) (viewSyncsFor pending) this))) = Some Seen
         \<and> (\<not> viewOnceOpenSyncFor pending \<longrightarrow>
              (\<forall>m d. readStatus (deleteForEveryone h m d False) = readStatus m
                     \<and> seenStatus (deleteForEveryone h m d False) = seenStatus m) \<longrightarrow>
              (\<exists>this' effs.
                 modifyTargetMessage h w clock pending conv isFirstRun this = Inr (this', effs)
                 \<and> readStatus (attributes this')
                     = Some (if viewSyncsFor pending \<noteq> [] then Viewed else Read)
                 \<and> seenStatus (attributes this') = Some Seen))"
proof -
  let ?block = "applyReadAndViewSyncs clock conv isFirstRun
             (readSyncFor pending) (viewSyncsFor pending) this"
  have r: "readStatus (attributes (fst ?block))
             = Some (if viewSyncsFor pending \<noteq> [] then Viewed else Read)"
    and s: "seenStatus (attributes (fst ?block)) = Some Seen"
    by (simp_all add: applyReadAndViewSyncs_present [OF syncs])
  have whole: "\<exists>this' effs.
                 modifyTargetMessage h w clock pending conv isFirstRun this = Inr (this', effs)
                 \<and> readStatus (attributes this')
                     = Some (if viewSyncsFor pending \<noteq> [] then Viewed else Read)
                 \<and> seenStatus (attributes this') = Some Seen"
    if nv: "\<not> viewOnceOpenSyncFor pending"
      and del: "\<forall>m d. readStatus (deleteForEveryone h m d False) = readStatus m
                     \<and> seenStatus (deleteForEveryone h m d False) = seenStatus m"
  proof -
    obtain this' effs rs where
      run: "modifyTargetMessage h w clock pending conv isFirstRun this = Inr (this', effs)"
      and at: "attributes this' =
                 fst (applyDeletes h (deletesFor pending)
                       ((attributes (fst ?block))\<lparr>reactions := rs\<rparr>))"
      using modifyTargetMessage_incoming [OF incoming nv] by blast
    have "readStatus (attributes this') = readStatus ((attributes (fst ?block))\<lparr>reactions := rs\<rparr>)"
      unfolding at using del by (intro applyDeletes_preserves) simp
    moreover have "seenStatus (attributes this') = seenStatus ((attributes (fst ?block))\<lparr>reactions := rs\<rparr>)"
      unfolding at using del by (intro applyDeletes_preserves) simp
    ultimately show ?thesis using run r s by simp
  qed
  from r s whole show ?thesis by blast
qed

theorem modifyTargetMessage_read_status_witness:
  "msg_type (attributes (freshModel blankMessage)) = Incoming
   \<and> readSyncFor (noPending\<lparr>readSyncFor := Some \<lparr>readAt = 500\<rparr>\<rparr>) \<noteq> None
   \<and> \<not> viewOnceOpenSyncFor (noPending\<lparr>readSyncFor := Some \<lparr>readAt = 500\<rparr>\<rparr>)
   \<and> (\<exists>this' effs.
         modifyTargetMessage plainHelpers smallWorld (clockAt 900)
           (noPending\<lparr>readSyncFor := Some \<lparr>readAt = 500\<rparr>\<rparr>) directConversation True
           (freshModel blankMessage) = Inr (this', effs)
         \<and> readStatus (attributes this') = Some Read
         \<and> seenStatus (attributes this') = Some Seen)"
  using modifyTargetMessage_read_status [of "freshModel blankMessage"
          "noPending\<lparr>readSyncFor := Some \<lparr>readAt = 500\<rparr>\<rparr>" "clockAt 900" directConversation True
          plainHelpers smallWorld]
  by (simp add: freshModel_def blankMessage_def noPending_def plainHelpers_def)

text \<open>
  Claim C4. In a reconciliation pass on an incoming message with at least one read sync
  or view sync, \<open>markReadAt\<close> is the minimum of the clock reading and the \<open>readAt\<close> and
  \<open>viewedAt\<close> of the syncs, so it is not later than that reading; it is folded into
  \<open>pendingMarkRead\<close>; and a message with a non-zero \<open>expireTimer\<close> gets the
  \<open>expirationStartTimestamp\<close> \<open>min (existing, or else the clock reading) markReadAt\<close>,
  which is also the value the message ends the pass with when no view-once open sync is
  pending and \<open>deleteForEveryone\<close> leaves the attribute alone.
\<close>

theorem modifyTargetMessage_markReadAt:
  assumes incoming: "msg_type (attributes this) = Incoming"
    and syncs: "readSyncFor pending \<noteq> None \<or> viewSyncsFor pending \<noteq> []"
  shows "markReadAtOf (nowMarkReadAt clock) (readSyncsOf pending) (viewSyncsFor pending)
           = Min (insert (nowMarkReadAt clock)
                    (readAt ` set (readSyncsOf pending) \<union> viewedAt ` set (viewSyncsFor pending)))
         \<and> markReadAtOf (nowMarkReadAt clock) (readSyncsOf pending) (viewSyncsFor pending)
             \<le> nowMarkReadAt clock
         \<and> pendingMarkRead (fst (applyReadAndViewSyncs clock conv isFirstRun
               (readSyncFor pending) (viewSyncsFor pending) this))
             = Some (min (case pendingMarkRead this of
                            None \<Rightarrow> nowPendingMarkRead clock | Some p \<Rightarrow> p)
                         (markReadAtOf (nowMarkReadAt clock) (readSyncsOf pending)
                            (viewSyncsFor pending)))
         \<and> (expireTimer (attributes this) \<noteq> None \<and> expireTimer (attributes this) \<noteq> Some 0 \<longrightarrow>
              expirationStartTimestamp (attributes (fst (applyReadAndViewSyncs clock conv
                 isFirstRun (readSyncFor pending) (viewSyncsFor pending) this)))
                = Some (min (case expirationStartTimestamp (attributes this) of
                               None \<Rightarrow> nowExpirationStart clock | Some e \<Rightarrow> e)
                            (markReadAtOf (nowMarkReadAt clock) (readSyncsOf pending)
                               (viewSyncsFor pending)))
              \<and> (\<not> viewOnceOpenSyncFor pending \<longrightarrow>
                   (\<forall>m d. expirationStartTimestamp (deleteForEveryone h m d False)
                            = expirationStartTimestamp m) \<longrightarrow>
                   (\<exists>this' effs.
                      modifyTargetMessage h w clock pending conv isFirstRun this
                        = Inr (this', effs)
                      \<and> expirationStartTimestamp (attributes this')
                          = Some (min (case expirationStartTimestamp (attributes this) of
                                         None \<Rightarrow> nowExpirationStart clock | Some e \<Rightarrow> e)
                                      (markReadAtOf (nowMarkReadAt clock) (readSyncsOf pending)
                                         (viewSyncsFor pending))))))"
proof -
  let ?block = "applyReadAndViewSyncs clock conv isFirstRun
             (readSyncFor pending) (viewSyncsFor pending) this"
  let ?at = "markReadAtOf (nowMarkReadAt clock) (readSyncsOf pending) (viewSyncsFor pending)"
  let ?start = "Some (min (case expirationStartTimestamp (attributes this) of
                             None \<Rightarrow> nowExpirationStart clock | Some e \<Rightarrow> e) ?at)"
  have p: "pendingMarkRead (fst ?block)
             = Some (min (case pendingMarkRead this of
                            None \<Rightarrow> nowPendingMarkRead clock | Some p \<Rightarrow> p) ?at)"
    by (simp add: applyReadAndViewSyncs_present [OF syncs])
  have e: "expirationStartTimestamp (attributes (fst ?block)) = ?start"
    if "expireTimer (attributes this) \<noteq> None \<and> expireTimer (attributes this) \<noteq> Some 0"
    using that by (simp add: applyReadAndViewSyncs_present [OF syncs])
  have whole: "\<exists>this' effs.
                 modifyTargetMessage h w clock pending conv isFirstRun this = Inr (this', effs)
                 \<and> expirationStartTimestamp (attributes this') = ?start"
    if tm: "expireTimer (attributes this) \<noteq> None \<and> expireTimer (attributes this) \<noteq> Some 0"
      and nv: "\<not> viewOnceOpenSyncFor pending"
      and del: "\<forall>m d. expirationStartTimestamp (deleteForEveryone h m d False)
                            = expirationStartTimestamp m"
  proof -
    obtain this' effs rs where
      run: "modifyTargetMessage h w clock pending conv isFirstRun this = Inr (this', effs)"
      and at: "attributes this' =
                 fst (applyDeletes h (deletesFor pending)
                       ((attributes (fst ?block))\<lparr>reactions := rs\<rparr>))"
      using modifyTargetMessage_incoming [OF incoming nv] by blast
    have "expirationStartTimestamp (attributes this')
            = expirationStartTimestamp ((attributes (fst ?block))\<lparr>reactions := rs\<rparr>)"
      unfolding at using del by (intro applyDeletes_preserves) simp
    then show ?thesis using run e [OF tm] by simp
  qed
  from p e whole markReadAtOf_Min [of "nowMarkReadAt clock" "readSyncsOf pending" "viewSyncsFor pending"]
    markReadAtOf_le_now [of "nowMarkReadAt clock" "readSyncsOf pending" "viewSyncsFor pending"]
  show ?thesis by blast
qed

theorem modifyTargetMessage_markReadAt_witness:
  "msg_type (attributes (freshModel (blankMessage\<lparr>expireTimer := Some 60\<rparr>))) = Incoming
   \<and> readSyncFor (noPending\<lparr>readSyncFor := Some \<lparr>readAt = 500\<rparr>,
                           viewSyncsFor := [\<lparr>viewedAt = 700\<rparr>]\<rparr>) \<noteq> None
   \<and> markReadAtOf 900 [\<lparr>readAt = 500\<rparr>] [\<lparr>viewedAt = 700\<rparr>] = 500
   \<and> (\<exists>this' effs.
         modifyTargetMessage plainHelpers smallWorld (clockAt 900)
           (noPending\<lparr>readSyncFor := Some \<lparr>readAt = 500\<rparr>,
                      viewSyncsFor := [\<lparr>viewedAt = 700\<rparr>]\<rparr>) directConversation True
           (freshModel (blankMessage\<lparr>expireTimer := Some 60\<rparr>)) = Inr (this', effs)
         \<and> expirationStartTimestamp (attributes this') = Some 500)"
  using modifyTargetMessage_markReadAt [of "freshModel (blankMessage\<lparr>expireTimer := Some 60\<rparr>)"
          "noPending\<lparr>readSyncFor := Some \<lparr>readAt = 500\<rparr>, viewSyncsFor := [\<lparr>viewedAt = 700\<rparr>]\<rparr>"
          "clockAt 900" directConversation True plainHelpers smallWorld]
  by (simp add: freshModel_def blankMessage_def noPending_def plainHelpers_def clockAt_def
        readSyncsOf_def markReadAtOf_def)

section \<open>Delete for everyone\<close>

text \<open>
  Claim C9. With no other delete in flight, \<open>handleDeleteForEveryone\<close> on a message that
  is not yet deleted for everyone leaves it with \<open>deletedForEveryone\<close> and \<open>isErased\<close>
  true, with empty body, attachments, contact, preview and reactions, and without quote
  or sticker, while identity and send states stay; on a message already deleted for
  everyone it changes nothing and calls no collaborator; so a second invocation after the
  first changes nothing.
\<close>

theorem handleDeleteForEveryone_erases:
  assumes "\<not> deletingForEveryone this"
  shows "(\<not> deletedForEveryone (attributes this) \<longrightarrow>
            (let a = attributes (fst (handleDeleteForEveryone w shouldPersist this))
             in deletedForEveryone a \<and> isErased a \<and> body a = Some [] \<and> attachments a = Some []
                \<and> contact a = Some [] \<and> preview a = Some [] \<and> reactions a = Some []
                \<and> quote a = None \<and> sticker a = None
                \<and> msg_id a = msg_id (attributes this)
                \<and> sent_at a = sent_at (attributes this)
                \<and> sendStateByConversationId a = sendStateByConversationId (attributes this)))
       \<and> (deletedForEveryone (attributes this) \<longrightarrow>
            handleDeleteForEveryone w shouldPersist this = (this, []))
       \<and> handleDeleteForEveryone w shouldPersist
            (fst (handleDeleteForEveryone w shouldPersist this))
          = (fst (handleDeleteForEveryone w shouldPersist this), [])"
  using assms
  by (simp add: handleDeleteForEveryone_def eraseContents_def Let_def split: prod.splits)

theorem handleDeleteForEveryone_erases_witness:
  "\<not> deletingForEveryone
        (freshModel (blankMessage\<lparr>body := Some ''hello'', reactions := Some [thumbsUp]\<rparr>))
   \<and> \<not> deletedForEveryone (attributes
        (freshModel (blankMessage\<lparr>body := Some ''hello'', reactions := Some [thumbsUp]\<rparr>)))
   \<and> deletedForEveryone (attributes (fst (handleDeleteForEveryone smallWorld True
        (freshModel (blankMessage\<lparr>body := Some ''hello'', reactions := Some [thumbsUp]\<rparr>)))))
   \<and> body (attributes (fst (handleDeleteForEveryone smallWorld True
        (freshModel (blankMessage\<lparr>body := Some ''hello'', reactions := Some [thumbsUp]\<rparr>)))))
      = Some []
   \<and> reactions (attributes (fst (handleDeleteForEveryone smallWorld True
        (freshModel (blankMessage\<lparr>body := Some ''hello'', reactions := Some [thumbsUp]\<rparr>)))))
      = Some []"
  using handleDeleteForEveryone_erases
          [of "freshModel (blankMessage\<lparr>body := Some ''hello'', reactions := Some [thumbsUp]\<rparr>)"
              smallWorld True]
  by (simp add: freshModel_def blankMessage_def Let_def)

section \<open>Emptiness\<close>

lemma isEmpty_iff:
  "isEmpty h m \<longleftrightarrow>
     \<not> (body m \<noteq> None \<and> body m \<noteq> Some []) \<and>
     \<not> (case attachments m of None \<Rightarrow> False | Some as \<Rightarrow> as \<noteq> []) \<and>
     \<not> (case contact m of None \<Rightarrow> False | Some cs \<Rightarrow> cs \<noteq> []) \<and>
     sticker m = None \<and>
     \<not> messageHasPaymentEvent h m \<and> \<not> isCallHistory h m \<and> \<not> isChatSessionRefreshed h m \<and>
     \<not> isDeliveryIssue h m \<and> \<not> isGiftBadge h m \<and> \<not> isGroupUpdate h m \<and>
     \<not> isGroupV2Change h m \<and> \<not> isEndSession h m \<and> \<not> isExpirationTimerUpdate h m \<and>
     \<not> isVerifiedChange h m \<and> \<not> isUnsupportedMessage h m \<and> \<not> isTapToView h m \<and>
     \<not> hasErrors m \<and> \<not> isKeyChange h m \<and> \<not> isProfileChange h m \<and>
     \<not> isUniversalTimerNotification h m \<and> \<not> isConversationMerge h m"
  by (auto simp add: isEmpty_def Let_def split: option.splits)

section \<open>Retrying a send\<close>

lemma sendStatesOrEmpty_update [simp]:
  "sendStatesOrEmpty (m\<lparr>sendStateByConversationId := Some s\<rparr>) = s"
  by (simp add: sendStatesOrEmpty_def)

text \<open>
  Claim C6. \<open>retrySend\<close> puts a send state through the reducer with ManuallyRetried
  exactly when its status is not sent-class (it is Pending or Failed), its recipient has
  a conversation, and the recipient is in the current recipient set or is the local
  account; every other entry is left as it was, in particular the entries that are Sent,
  Delivered, Read or Viewed. When the message names a distribution list that the store no
  longer has, nothing is retried: \<open>markFailed\<close> puts every entry through the reducer with
  Failed, which by its documentation does not change a sent entry; that property of the
  reducer is assumed for this case.
\<close>

theorem retrySend_send_states:
  shows "(\<forall>recipients k.
            currentConversationRecipients w conv this = Some recipients \<longrightarrow>
            sendStatesOrEmpty (fst (retrySend h w conv now nowAt this)) k =
              (case sendStatesOrEmpty this k of
                 None \<Rightarrow> None
               | Some sendState \<Rightarrow>
                   Some (if \<not> isSent (status sendState)
                            \<and> (\<exists>recipient. conversationById w k = Some recipient
                                   \<and> (k \<in> recipients \<or> isMe recipient))
                         then sendStateReducer h sendState
                                \<lparr>actionType = ManuallyRetried, actionUpdatedAt = nowAt k\<rparr>
                         else sendState)))
       \<and> (\<forall>k. currentConversationRecipients w conv this = None \<longrightarrow>
            sendStatesOrEmpty (fst (retrySend h w conv now nowAt this)) k =
              map_option (\<lambda>sendState. sendStateReducer h sendState
                                         \<lparr>actionType = Action_Failed, actionUpdatedAt = now\<rparr>)
                (sendStatesOrEmpty this k))
       \<and> ((currentConversationRecipients w conv this = None \<longrightarrow>
             (\<forall>sendState t. isSent (status sendState) \<longrightarrow>
                sendStateReducer h sendState
                  \<lparr>actionType = Action_Failed, actionUpdatedAt = t\<rparr> = sendState)) \<longrightarrow>
           (\<forall>k sendState.
              sendStatesOrEmpty this k = Some sendState \<and> isSent (status sendState) \<longrightarrow>
              sendStatesOrEmpty (fst (retrySend h w conv now nowAt this)) k = Some sendState))"
proof (cases "currentConversationRecipients w conv this")
  case None
  then show ?thesis
    by (auto simp add: retrySend_def markFailed_def)
next
  case (Some recipients)
  then show ?thesis
    by (auto simp add: retrySend_def Let_def split: option.splits)
qed

theorem retrySend_send_states_witness:
  "currentConversationRecipients smallWorld directConversation retryMessage = Some {''alice''}
   \<and> sendStatesOrEmpty retryMessage ''bob''
       = Some \<lparr>status = Status_Sent, updatedAt = Some 1000, isAllowedToReplyToStory = None\<rparr>
   \<and> isSent Status_Sent
   \<and> sendStatesOrEmpty
        (fst (retrySend retryingHelpers smallWorld directConversation 5000 (\<lambda>k. 5000)
                retryMessage)) ''alice''
       = Some \<lparr>status = Status_Pending, updatedAt = Some 5000, isAllowedToReplyToStory = None\<rparr>
   \<and> sendStatesOrEmpty
        (fst (retrySend retryingHelpers smallWorld directConversation 5000 (\<lambda>k. 5000)
                retryMessage)) ''bob''
       = Some \<lparr>status = Status_Sent, updatedAt = Some 1000, isAllowedToReplyToStory = None\<rparr>"
  using retrySend_send_states [of smallWorld directConversation retryMessage retryingHelpers
          5000 "\<lambda>k. 5000"]
  by (simp add: currentConversationRecipients_def retryMessage_def blankMessage_def
        directConversation_def sendStatesOrEmpty_def isSent_def smallWorld_def
        retryingHelpers_def plainHelpers_def)

section \<open>Duplicates\<close>







section \<open>Blocked senders\<close>

lemma processGroupV2_effects:
  "processGroupV2 c initialMessage conversation = Inr (conv, effsGroup) \<Longrightarrow>
   set effsGroup \<subseteq> {RespondToGroupV2Migration, MaybeRepairGroupV2, MaybeUpdateGroup}"
  by (auto simp add: processGroupV2_def Let_def split: option.splits if_splits sum.splits)

lemma storesAfter_group:
  "set effs \<subseteq> {SetRegistered, RespondToGroupV2Migration, MaybeRepairGroupV2, MaybeUpdateGroup,
                 Confirm} \<Longrightarrow> fold applyEffect effs st = st"
  by (induction effs arbitrary: st) auto

text \<open>
  Claim C10, as amended. A payload from a blocked sender that the duplicate check lets
  through is dropped and confirmed, with nothing registered or saved, before the
  membership gates, the announcement gate and the resolution of quote and story; but the
  sender's contact has been marked registered before, and a GroupV2 migration, repair or
  update carried by the payload has been applied to the conversation before. When the
  group update fails, the error is rethrown and nothing is confirmed.
\<close>

theorem handleDataMessage_blocked:
  assumes blocked: "senderIsBlocked c (attributes this)"
    and fresh: "checkDuplicate h c st (nowMerge a) data (attributes this) = None"
  shows "(\<forall>conv effsGroup.
            processGroupV2 c initialMessage conversation = Inr (conv, effsGroup) \<longrightarrow>
            handleDataMessage h w c st a conversation initialMessage data this
              = Inr (Dropped BlockedSender, this,
                     (if fromContactFound a then [SetRegistered] else [])
                     @ effsGroup @ [Confirm])
            \<and> set effsGroup
                \<subseteq> {RespondToGroupV2Migration, MaybeRepairGroupV2, MaybeUpdateGroup}
            \<and> storesAfter (effectsOf (handleDataMessage h w c st a conversation initialMessage
                                        data this)) st = st)
       \<and> (\<forall>e. processGroupV2 c initialMessage conversation = Inl e \<longrightarrow>
            handleDataMessage h w c st a conversation initialMessage data this = Inl e)"
proof -
  have run: "handleDataMessage h w c st a conversation initialMessage data this
              = Inr (Dropped BlockedSender, this,
                     (if fromContactFound a then [SetRegistered] else [])
                     @ effsGroup @ [Confirm])"
    if "processGroupV2 c initialMessage conversation = Inr (conv, effsGroup)"
    for conv effsGroup
    using that blocked fresh
    by (simp add: handleDataMessage_def gateSender_def Let_def)
  have sub: "set effsGroup
                \<subseteq> {RespondToGroupV2Migration, MaybeRepairGroupV2, MaybeUpdateGroup}"
    if "processGroupV2 c initialMessage conversation = Inr (conv, effsGroup)"
    for conv effsGroup
    using that by (rule processGroupV2_effects)
  have st: "storesAfter ((if fromContactFound a then [SetRegistered] else [])
                     @ effsGroup @ [Confirm]) st = st"
    if "processGroupV2 c initialMessage conversation = Inr (conv, effsGroup)"
    for conv effsGroup
    unfolding storesAfter_def using sub [OF that]
    by (intro storesAfter_group) auto
  have thrown: "handleDataMessage h w c st a conversation initialMessage data this = Inl e"
    if "processGroupV2 c initialMessage conversation = Inl e" for e
    using that fresh by (simp add: handleDataMessage_def Let_def)
  show ?thesis using run sub st thrown by (simp add: effectsOf_def)
qed

theorem handleDataMessage_blocked_witness:
  "senderIsBlocked blockingCollaborators (attributes (freshModel blankMessage))
   \<and> checkDuplicate plainHelpers blockingCollaborators emptyStores (nowMerge greetingArrival) None
        (attributes (freshModel blankMessage)) = None
   \<and> processGroupV2 blockingCollaborators plainPayload directConversation
        = Inr (directConversation, [])
   \<and> handleDataMessage plainHelpers smallWorld blockingCollaborators emptyStores
        greetingArrival directConversation plainPayload None (freshModel blankMessage)
      = Inr (Dropped BlockedSender, freshModel blankMessage, [Confirm])"
proof -
  have blocked: "senderIsBlocked blockingCollaborators (attributes (freshModel blankMessage))"
    by (simp add: senderIsBlocked_def blockingCollaborators_def plainCollaborators_def
          freshModel_def blankMessage_def truthy_def)
  have fresh: "checkDuplicate plainHelpers blockingCollaborators emptyStores
                 (nowMerge greetingArrival) None (attributes (freshModel blankMessage)) = None"
    by (simp add: checkDuplicate_def existingMessageFor_def findBySender_def
          getMessageBySender_def emptyStores_def freshModel_def blankMessage_def)
  have group: "processGroupV2 blockingCollaborators plainPayload directConversation
                 = Inr (directConversation, [])"
    by (simp add: processGroupV2_def plainPayload_def)
  have nc: "\<not> fromContactFound greetingArrival"
    by (simp add: greetingArrival_def arrivalOf_def)
  show ?thesis
    using handleDataMessage_blocked [OF blocked fresh, where w = smallWorld
            and conversation = directConversation and initialMessage = plainPayload]
          blocked fresh group nc
    by simp
qed

text \<open>
  The claim as stated has the drop come before any mutation of the conversation. It fails
  for a blocked sender's payload with a GroupV2 context of a newer revision: the
  conversation is repaired and updated to revision 5, and the contact is marked
  registered, before the payload is dropped.
\<close>

theorem handleDataMessage_blocked_counterexample:
  "senderIsBlocked blockingCollaborators (attributes (freshModel blankMessage))
   \<and> processGroupV2 blockingCollaborators groupPayload groupConversation
        = Inr (groupConversation\<lparr>conv_revision := Some 5\<rparr>,
               [MaybeRepairGroupV2, MaybeUpdateGroup])
   \<and> handleDataMessage plainHelpers smallWorld blockingCollaborators emptyStores
        (greetingArrival\<lparr>fromContactFound := True\<rparr>) groupConversation groupPayload None
        (freshModel blankMessage)
      = Inr (Dropped BlockedSender, freshModel blankMessage,
             [SetRegistered, MaybeRepairGroupV2, MaybeUpdateGroup, Confirm])"
  by (simp add: senderIsBlocked_def blockingCollaborators_def plainCollaborators_def
        freshModel_def blankMessage_def truthy_def processGroupV2_def groupPayload_def
        plainPayload_def groupConversation_def directConversation_def handleDataMessage_def
        checkDuplicate_def existingMessageFor_def findBySender_def getMessageBySender_def
        emptyStores_def gateSender_def greetingArrival_def arrivalOf_def Let_def)

section \<open>The emptiness gate\<close>

lemma handleDataMessage_admitted:
  assumes fresh: "checkDuplicate h c st (nowMerge a) data (attributes this) = None"
    and group: "processGroupV2 c initialMessage conversation = Inr (conv, effsGroup)"
    and sender: "gateSender c initialMessage conv (attributes this) = Pass"
    and quote: "copiedQuote a = Inr q"
    and story: "gateStory w initialMessage conv
                  (lookupOrCreate c (msg_source (attributes this)) (sourceUuid (attributes this)))
                  (storyQuote a) = Pass"
  shows "handleDataMessage h w c st a conversation initialMessage data this =
           (case populateAndGate h w c a initialMessage conv (messageIdFor c (attributes this))
                   (attributes this) of
              Inl effs \<Rightarrow>
                Inr (Dropped EmptyMessage,
                     this\<lparr>attributes := populatedFor h c a initialMessage conv this\<rparr>,
                     ((if fromContactFound a then [SetRegistered] else [])
                      @ effsGroup
                      @ (if msg_type (attributes this) = Incoming
                            \<and> unidentifiedDeliveryReceived (attributes this)
                            \<and> \<not> hasErrors (attributes this) \<and> getAccepted conv
                         then [QueueDeliveryReceipt] else [])
                      @ [CopyFromQuotedMessage, FindStoryMessage]) @ effs)
            | Inr (message', effs) \<Rightarrow>
                (case registerAndSave h w a conv (this\<lparr>attributes := message'\<rparr>) of
                   Inl e \<Rightarrow> Inl e
                 | Inr (this', effs') \<Rightarrow>
                     Inr (Saved, this',
                          ((if fromContactFound a then [SetRegistered] else [])
                           @ effsGroup
                           @ (if msg_type (attributes this) = Incoming
                                 \<and> unidentifiedDeliveryReceived (attributes this)
                                 \<and> \<not> hasErrors (attributes this) \<and> getAccepted conv
                              then [QueueDeliveryReceipt] else [])
                           @ [CopyFromQuotedMessage, FindStoryMessage]) @ effs @ effs')))"
  using assms
  by (simp add: handleDataMessage_def populatedFor_def Let_def split: sum.splits prod.splits)

lemma populateAndGate_empty:
  "populateAndGate h w c a initialMessage conv messageId m =
     Inl ([UpgradeMessageSchema] @ (if storyQuote a \<noteq> None then [HydrateStoryContext] else [])
          @ [Confirm])"
  if "\<not> isUnsupportedMessage h (populate h a initialMessage conv messageId m)"
     "isEmpty h (populate h a initialMessage conv messageId m)"
  using that by (simp add: populateAndGate_def Let_def)

lemma populateAndGate_not_empty:
  "\<exists>m' effs. populateAndGate h w c a initialMessage conv messageId m = Inr (m', effs)"
  if "isUnsupportedMessage h (populate h a initialMessage conv messageId m)
      \<or> \<not> isEmpty h (populate h a initialMessage conv messageId m)"
  using that by (auto simp add: populateAndGate_def Let_def split: prod.splits)

lemma hasErrors_populate: "\<not> hasErrors (populate h a initialMessage conv messageId m)"
  by (simp add: populate_def hasErrors_def Let_def)

lemma storesAfter_no_store_effect:
  "(\<forall>m. RegisterMessage m \<notin> set effs \<and> SaveMessage m \<notin> set effs
        \<and> SaveNewMessageBatch m \<notin> set effs) \<Longrightarrow> storesAfter effs st = st"
  unfolding storesAfter_def
proof (induction effs arbitrary: st)
  case Nil
  then show ?case by simp
next
  case (Cons e effs)
  then have "applyEffect e st = st" by (cases e) auto
  then show ?case using Cons by simp
qed

text \<open>
  Claim C7. For a payload that has passed the gates before the population of the message:
  a populated message that is one of the recognised subtypes, such as one that only
  carries the expiration-timer-update flag, is not empty for \<open>isEmpty\<close> and the method
  does not end with the drop of an empty message; and a populated message without body,
  attachment, contact, sticker and payment event that is none of the subtypes is empty
  and is dropped and confirmed after the resolution of quote and story, with no store
  changed.
\<close>

theorem handleDataMessage_emptiness:
  assumes fresh: "checkDuplicate h c st (nowMerge a) data (attributes this) = None"
    and group: "processGroupV2 c initialMessage conversation = Inr (conv, effsGroup)"
    and sender: "gateSender c initialMessage conv (attributes this) = Pass"
    and quote: "copiedQuote a = Inr q"
    and story: "gateStory w initialMessage conv
                  (lookupOrCreate c (msg_source (attributes this)) (sourceUuid (attributes this)))
                  (storyQuote a) = Pass"
  shows "(isExpirationTimerUpdate h (populatedFor h c a initialMessage conv this)
          \<or> isCallHistory h (populatedFor h c a initialMessage conv this)
          \<or> isChatSessionRefreshed h (populatedFor h c a initialMessage conv this)
          \<or> isDeliveryIssue h (populatedFor h c a initialMessage conv this)
          \<or> isGiftBadge h (populatedFor h c a initialMessage conv this)
          \<or> isGroupUpdate h (populatedFor h c a initialMessage conv this)
          \<or> isGroupV2Change h (populatedFor h c a initialMessage conv this)
          \<or> isEndSession h (populatedFor h c a initialMessage conv this)
          \<or> isVerifiedChange h (populatedFor h c a initialMessage conv this)
          \<or> isUnsupportedMessage h (populatedFor h c a initialMessage conv this)
          \<or> isTapToView h (populatedFor h c a initialMessage conv this)
          \<or> isKeyChange h (populatedFor h c a initialMessage conv this)
          \<or> isProfileChange h (populatedFor h c a initialMessage conv this)
          \<or> isUniversalTimerNotification h (populatedFor h c a initialMessage conv this)
          \<or> isConversationMerge h (populatedFor h c a initialMessage conv this) \<longrightarrow>
            \<not> isEmpty h (populatedFor h c a initialMessage conv this)
            \<and> outcomeOf (handleDataMessage h w c st a conversation initialMessage data this)
                \<noteq> Some (Dropped EmptyMessage))
       \<and> (body (populatedFor h c a initialMessage conv this) \<in> {None, Some []}
           \<and> attachments (populatedFor h c a initialMessage conv this) \<in> {None, Some []}
           \<and> contact (populatedFor h c a initialMessage conv this) \<in> {None, Some []}
           \<and> sticker (populatedFor h c a initialMessage conv this) = None
           \<and> \<not> messageHasPaymentEvent h (populatedFor h c a initialMessage conv this)
           \<and> \<not> (isExpirationTimerUpdate h (populatedFor h c a initialMessage conv this)
                \<or> isCallHistory h (populatedFor h c a initialMessage conv this)
                \<or> isChatSessionRefreshed h (populatedFor h c a initialMessage conv this)
                \<or> isDeliveryIssue h (populatedFor h c a initialMessage conv this)
                \<or> isGiftBadge h (populatedFor h c a initialMessage conv this)
                \<or> isGroupUpdate h (populatedFor h c a initialMessage conv this)
                \<or> isGroupV2Change h (populatedFor h c a initialMessage conv this)
                \<or> isEndSession h (populatedFor h c a initialMessage conv this)
                \<or> isVerifiedChange h (populatedFor h c a initialMessage conv this)
                \<or> isUnsupportedMessage h (populatedFor h c a initialMessage conv this)
                \<or> isTapToView h (populatedFor h c a initialMessage conv this)
                \<or> isKeyChange h (populatedFor h c a initialMessage conv this)
                \<or> isProfileChange h (populatedFor h c a initialMessage conv this)
                \<or> isUniversalTimerNotification h (populatedFor h c a initialMessage conv this)
                \<or> isConversationMerge h (populatedFor h c a initialMessage conv this)) \<longrightarrow>
            isEmpty h (populatedFor h c a initialMessage conv this)
            \<and> handleDataMessage h w c st a conversation initialMessage data this
                = Inr (Dropped EmptyMessage,
                       this\<lparr>attributes := populatedFor h c a initialMessage conv this\<rparr>,
                       effectsBeforeGate a conv effsGroup this @ [Confirm])
            \<and> storesAfter
                 (effectsOf (handleDataMessage h w c st a conversation initialMessage data this))
                 st = st)"
proof -
  let ?P = "populatedFor h c a initialMessage conv this"
  let ?R = "handleDataMessage h w c st a conversation initialMessage data this"
  note adm = handleDataMessage_admitted [OF fresh group sender quote story]
  have ne: "hasErrors ?P = False"
    by (simp add: populatedFor_def hasErrors_populate)
  have kept: "outcomeOf ?R \<noteq> Some (Dropped EmptyMessage)"
    if "isUnsupportedMessage h ?P \<or> \<not> isEmpty h ?P"
  proof -
    have "isUnsupportedMessage h (populate h a initialMessage conv
              (messageIdFor c (attributes this)) (attributes this))
          \<or> \<not> isEmpty h (populate h a initialMessage conv
              (messageIdFor c (attributes this)) (attributes this))"
      using that by (simp add: populatedFor_def)
    then obtain m' effs where "populateAndGate h w c a initialMessage conv
        (messageIdFor c (attributes this)) (attributes this) = Inr (m', effs)"
      using populateAndGate_not_empty by blast
    then show ?thesis
      by (simp add: adm outcomeOf_def split: sum.splits prod.splits)
  qed
  have dropped: "?R = Inr (Dropped EmptyMessage, this\<lparr>attributes := ?P\<rparr>,
                       effectsBeforeGate a conv effsGroup this @ [Confirm])"
    if "\<not> isUnsupportedMessage h ?P" "isEmpty h ?P"
    using that unfolding populatedFor_def
    by (simp add: adm populateAndGate_empty effectsBeforeGate_def populatedFor_def)
  have sub: "set effsGroup \<subseteq> {RespondToGroupV2Migration, MaybeRepairGroupV2, MaybeUpdateGroup}"
    using group by (rule processGroupV2_effects)
  have unchanged: "storesAfter (effectsBeforeGate a conv effsGroup this @ [Confirm]) st = st"
    using sub by (intro storesAfter_no_store_effect) (auto simp add: effectsBeforeGate_def)
  show ?thesis
    using kept dropped unchanged ne
    by (auto simp add: isEmpty_iff effectsOf_def split: option.splits)
qed

theorem handleDataMessage_emptiness_witness:
  "checkDuplicate plainHelpers plainCollaborators emptyStores (nowMerge timerArrival) None
     (attributes (freshModel blankMessage)) = None
   \<and> processGroupV2 plainCollaborators plainPayload directConversation
       = Inr (directConversation, [])
   \<and> gateSender plainCollaborators plainPayload directConversation
        (attributes (freshModel blankMessage)) = Pass
   \<and> copiedQuote timerArrival = Inr None
   \<and> gateStory smallWorld plainPayload directConversation
        (lookupOrCreate plainCollaborators (msg_source (attributes (freshModel blankMessage)))
           (sourceUuid (attributes (freshModel blankMessage))))
        (storyQuote timerArrival) = Pass
   \<and> isExpirationTimerUpdate plainHelpers
        (populatedFor plainHelpers plainCollaborators timerArrival plainPayload
           directConversation (freshModel blankMessage))
   \<and> body (populatedFor plainHelpers plainCollaborators timerArrival plainPayload
             directConversation (freshModel blankMessage)) = None
   \<and> \<not> isEmpty plainHelpers
        (populatedFor plainHelpers plainCollaborators timerArrival plainPayload
           directConversation (freshModel blankMessage))
   \<and> outcomeOf (handleDataMessage plainHelpers smallWorld plainCollaborators emptyStores
                  timerArrival directConversation plainPayload None (freshModel blankMessage))
       \<noteq> Some (Dropped EmptyMessage)"
proof -
  have fresh: "checkDuplicate plainHelpers plainCollaborators emptyStores (nowMerge timerArrival)
                 None (attributes (freshModel blankMessage)) = None"
    by (simp add: checkDuplicate_def existingMessageFor_def findBySender_def
          getMessageBySender_def emptyStores_def freshModel_def blankMessage_def)
  have group: "processGroupV2 plainCollaborators plainPayload directConversation
                 = Inr (directConversation, [])"
    by (simp add: processGroupV2_def plainPayload_def)
  have sender: "gateSender plainCollaborators plainPayload directConversation
                  (attributes (freshModel blankMessage)) = Pass"
    by (simp add: gateSender_def senderIsBlocked_def plainCollaborators_def plainPayload_def
          directConversation_def freshModel_def blankMessage_def truthy_def Let_def)
  have quote: "copiedQuote timerArrival = Inr None"
    by (simp add: timerArrival_def arrivalOf_def)
  have story: "gateStory smallWorld plainPayload directConversation
        (lookupOrCreate plainCollaborators (msg_source (attributes (freshModel blankMessage)))
           (sourceUuid (attributes (freshModel blankMessage))))
        (storyQuote timerArrival) = Pass"
    by (simp add: gateStory_def timerArrival_def arrivalOf_def plainPayload_def)
  have flag: "isExpirationTimerUpdate plainHelpers
        (populatedFor plainHelpers plainCollaborators timerArrival plainPayload
           directConversation (freshModel blankMessage))"
    and nobody: "body (populatedFor plainHelpers plainCollaborators timerArrival plainPayload
             directConversation (freshModel blankMessage)) = None"
    by (simp_all add: populatedFor_def populate_def plainHelpers_def timerArrival_def
          arrivalOf_def blankMessage_def Let_def)
  show ?thesis
    using handleDataMessage_emptiness [OF fresh group sender quote story]
          fresh group sender quote story flag nobody
    by simp
qed

section \<open>The read cascade comes after the save\<close>


















end
